theory Spec2Isabelle
  imports Main "HOL-Library.Monad_Syntax"
begin

section \<open>POSIX path text operations used by the parser\<close>

text \<open>
  \<open>PosixParser\<close> (mqttfs.py) delegates every method to \<open>PurePosixPath.parser\<close>, that is
  to the standard \<open>posixpath\<close> module. Its functions \<open>join\<close>, \<open>split\<close> and \<open>normpath\<close>
  are transcribed here on strings (lists of 8-bit characters); the separator is \<open>/\<close>, the
  current-directory marker is \<open>.\<close>.
\<close>

definition sep :: char where
  "sep = CHR ''/''"

definition curdir :: string where
  "curdir = ''.''"

definition startswith_sep :: "string \<Rightarrow> bool" where
  "startswith_sep s = (case s of [] \<Rightarrow> False | c # _ \<Rightarrow> c = sep)"

definition endswith_sep :: "string \<Rightarrow> bool" where
  "endswith_sep s = (s \<noteq> [] \<and> last s = sep)"

text \<open>One iteration of the loop of \<open>posixpath.join\<close>.\<close>

definition join_step :: "string \<Rightarrow> string \<Rightarrow> string" where
  "join_step path b =
     (if startswith_sep b \<or> path = [] then b
      else if endswith_sep path then path @ b
      else path @ [sep] @ b)"

definition posix_join :: "string \<Rightarrow> string list \<Rightarrow> string" where
  "posix_join a p = foldl join_step a p"

text \<open>\<open>str.rfind\<close> for a single character: the highest index, or \<open>-1\<close>.\<close>

fun rfind :: "char \<Rightarrow> string \<Rightarrow> int" where
  "rfind c [] = -1"
| "rfind c (x # xs) =
     (let r = rfind c xs in if 0 \<le> r then r + 1 else if x = c then 0 else -1)"

definition rstrip_sep :: "string \<Rightarrow> string" where
  "rstrip_sep s = rev (dropWhile (\<lambda>c. c = sep) (rev s))"

text \<open>\<open>posixpath.split\<close>: head and tail around the last separator.\<close>

definition posix_split :: "string \<Rightarrow> string \<times> string" where
  "posix_split p =
     (let i = nat (rfind sep p + 1);
          head = take i p;
          tail = drop i p
      in if head \<noteq> [] \<and> head \<noteq> replicate (length head) sep
         then (rstrip_sep head, tail) else (head, tail))"

text \<open>\<open>str.split(sep)\<close> with a one-character separator.\<close>

fun py_split :: "char \<Rightarrow> string \<Rightarrow> string list" where
  "py_split c [] = [[]]"
| "py_split c (x # xs) =
     (if x = c then [] # py_split c xs
      else (case py_split c xs of [] \<Rightarrow> [[x]] | w # ws \<Rightarrow> (x # w) # ws))"

text \<open>\<open>sep.join(comps)\<close>.\<close>

fun sep_join :: "string list \<Rightarrow> string" where
  "sep_join [] = []"
| "sep_join [x] = x"
| "sep_join (x # y # ys) = x @ [sep] @ sep_join (y # ys)"

text \<open>The body of the loop of \<open>posixpath.normpath\<close> over the components.\<close>

definition norm_step :: "nat \<Rightarrow> string list \<Rightarrow> string \<Rightarrow> string list" where
  "norm_step initial_slashes new_comps component =
     (if component = [] \<or> component = ''.'' then new_comps
      else if component \<noteq> ''..'' \<or> (initial_slashes = 0 \<and> new_comps = [])
              \<or> (new_comps \<noteq> [] \<and> last new_comps = ''..'')
           then new_comps @ [component]
      else if new_comps \<noteq> [] then butlast new_comps
      else new_comps)"

definition initial_slashes_of :: "string \<Rightarrow> nat" where
  "initial_slashes_of path =
     (if startswith_sep path
      then (if take 2 path = [sep, sep] \<and> take 3 path \<noteq> [sep, sep, sep] then 2 else 1)
      else 0)"

definition normpath :: "string \<Rightarrow> string" where
  "normpath path =
     (if path = [] then ''.''
      else
        let initial_slashes = initial_slashes_of path;
            comps = foldl (norm_step initial_slashes) [] (py_split sep path);
            joined = replicate initial_slashes sep @ sep_join comps
        in if joined = [] then ''.'' else joined)"

section \<open>The handler tree and path classification\<close>

text \<open>
  \<open>_TreeItem = _Handler | dict[str, _TreeItem]\<close>. A dictionary keeps its insertion order,
  so it is an association list; \<open>'h\<close> is the type of handler references. Only a handler is
  callable.
\<close>

datatype 'h tree_item = Handler 'h | Dict "(string \<times> 'h tree_item) list"

fun callable :: "'h tree_item \<Rightarrow> bool" where
  "callable (Handler h) = True"
| "callable (Dict d) = False"

text \<open>
  An \<open>MQTTPath\<close> holds a reference to its tree and its raw segments. Trees are compared
  by identity (\<open>is\<close>), so the path stores the address of the tree and a heap maps addresses
  to trees. No code of the repository mutates a tree.
\<close>

record MQTTPath =
  filetree :: nat
  segments :: "string list"

type_synonym 'h heap = "nat \<Rightarrow> 'h tree_item"

record 'h MQTTPathInfo =
  exists_flag :: bool
  is_dir_flag :: bool
  is_file_flag :: bool
  handler_field :: "'h option"
  children_field :: "string list option"
  parts_field :: "string list"

text \<open>\<open>_MQTTPathInfo.__init__\<close>; an absent \<open>item\<close> is \<open>None\<close>.\<close>

definition mk_info :: "string list \<Rightarrow> 'h tree_item option \<Rightarrow> 'h MQTTPathInfo" where
  "mk_info parts item =
     (case item of
        None \<Rightarrow> \<lparr>exists_flag = False, is_dir_flag = False, is_file_flag = False,
                 handler_field = None, children_field = None, parts_field = parts\<rparr>
      | Some (Dict d) \<Rightarrow> \<lparr>exists_flag = True, is_dir_flag = True, is_file_flag = False,
                 handler_field = None, children_field = Some (map fst d), parts_field = parts\<rparr>
      | Some (Handler h) \<Rightarrow> \<lparr>exists_flag = True, is_dir_flag = False, is_file_flag = True,
                 handler_field = Some h, children_field = None, parts_field = parts\<rparr>)"

text \<open>\<open>MQTTPath.__str__\<close>.\<close>

definition str_path :: "MQTTPath \<Rightarrow> string" where
  "str_path p = (case segments p of [] \<Rightarrow> [] | a # rest \<Rightarrow> posix_join a rest)"

text \<open>\<open>MQTTPath.__eq__\<close>: same tree object and same joined text.\<close>

definition path_eq :: "MQTTPath \<Rightarrow> MQTTPath \<Rightarrow> bool" where
  "path_eq p q = (filetree p = filetree q \<and> str_path p = str_path q)"

text \<open>
  \<open>MQTTPath.__parts\<close>: the \<open>while len(head)\<close> loop. It does not return on a text that
  starts with the separator (the head stays \<open>/\<close>), so not returning is \<open>None\<close>.
\<close>

partial_function (option) parts_loop :: "string \<Rightarrow> string list \<Rightarrow> string list option" where
  "parts_loop head parts =
     (if length head \<noteq> 0
      then (case posix_split head of (head', tail) \<Rightarrow> parts_loop head' (parts @ [tail]))
      else Some parts)"

declare parts_loop.simps [code]

definition path_parts :: "string \<Rightarrow> string list option" where
  "path_parts path = map_option rev (parts_loop path [])"

text \<open>
  The \<open>for part in parts\<close> loop of \<open>MQTTPath.info\<close>: \<open>None\<close> is the early return with no
  item, \<open>Some cur\<close> the node reached at the end.
\<close>

fun info_walk :: "'h tree_item \<Rightarrow> string list \<Rightarrow> 'h tree_item option" where
  "info_walk cur [] = Some cur"
| "info_walk cur (part # rest) =
     (if part \<noteq> curdir \<and> part \<noteq> [sep]
      then (case cur of
              Handler h \<Rightarrow> None
            | Dict d \<Rightarrow> (case map_of d part of
                           None \<Rightarrow> None
                         | Some item \<Rightarrow> info_walk item rest))
      else info_walk cur rest)"

text \<open>
  \<open>MQTTPath.info\<close>. The per-instance memo (\<open>__info\<close>) stores the value computed here and is
  not modelled: the function is pure.
\<close>

definition info :: "'h heap \<Rightarrow> MQTTPath \<Rightarrow> 'h MQTTPathInfo option" where
  "info heap p =
     (case path_parts (normpath (str_path p)) of
        None \<Rightarrow> None
      | Some parts \<Rightarrow> Some (mk_info parts (info_walk (heap (filetree p)) parts)))"


section \<open>Exceptions and the accessors of a classification\<close>

text \<open>
  The first argument of a classification error is the offending object: the
  \<open>_MQTTPathInfo\<close> when the error comes from \<open>handler\<close> or \<open>children\<close>, the \<open>MQTTPath\<close>
  when a handler of handlers.py raises it; \<open>ArgOther\<close> stands for any other value.
\<close>

datatype 'h exn_arg = ArgPath MQTTPath | ArgInfo "'h MQTTPathInfo" | ArgOther

datatype 'h exn =
    FileNotFoundError "'h exn_arg"
  | NotADirectoryError "'h exn_arg"
  | IsADirectoryError "'h exn_arg"
  | ValueError
  | JSONDecodeError
  | KeyError
  | TypeError
  | AttributeError
  | IndexError
  | OtherError string

text \<open>The properties \<open>_MQTTPathInfo.handler\<close> and \<open>_MQTTPathInfo.children\<close>.\<close>

definition info_handler :: "'h MQTTPathInfo \<Rightarrow> 'h exn + 'h" where
  "info_handler i =
     (case handler_field i of
        None \<Rightarrow> (if is_dir_flag i then Inl (IsADirectoryError (ArgInfo i))
                 else Inl (FileNotFoundError (ArgInfo i)))
      | Some h \<Rightarrow> Inr h)"

definition info_children :: "'h MQTTPathInfo \<Rightarrow> 'h exn + string list" where
  "info_children i =
     (case children_field i of
        None \<Rightarrow> (if is_file_flag i then Inl (NotADirectoryError (ArgInfo i))
                 else Inl (FileNotFoundError (ArgInfo i)))
      | Some names \<Rightarrow> Inr names)"

text \<open>The same queries on an \<open>MQTTPath\<close>, through \<open>info\<close>.\<close>

definition handler :: "'h heap \<Rightarrow> MQTTPath \<Rightarrow> ('h exn + 'h) option" where
  "handler heap p = map_option info_handler (info heap p)"

definition children :: "'h heap \<Rightarrow> MQTTPath \<Rightarrow> ('h exn + string list) option" where
  "children heap p = map_option info_children (info heap p)"

definition exists_path :: "'h heap \<Rightarrow> MQTTPath \<Rightarrow> bool option" where
  "exists_path heap p = map_option exists_flag (info heap p)"

definition is_dir :: "'h heap \<Rightarrow> MQTTPath \<Rightarrow> bool option" where
  "is_dir heap p = map_option is_dir_flag (info heap p)"

definition is_file :: "'h heap \<Rightarrow> MQTTPath \<Rightarrow> bool option" where
  "is_file heap p = map_option is_file_flag (info heap p)"

definition with_segments :: "MQTTPath \<Rightarrow> string list \<Rightarrow> MQTTPath" where
  "with_segments p pathsegments = \<lparr>filetree = filetree p, segments = pathsegments\<rparr>"

definition resolve :: "'h heap \<Rightarrow> MQTTPath \<Rightarrow> MQTTPath option" where
  "resolve heap p = map_option (\<lambda>i. with_segments p (parts_field i)) (info heap p)"

text \<open>
  \<open>self / key\<close>: the base class of \<open>MQTTPath\<close> (pathlib_abc) builds
  \<open>self.with_segments(str(self), key)\<close>.
\<close>

definition truediv :: "MQTTPath \<Rightarrow> string \<Rightarrow> MQTTPath" where
  "truediv p key = with_segments p [str_path p, key]"

text \<open>
  \<open>MQTTPath.iterdir\<close>. The iterable of the generator expression, \<open>self.info.children\<close>,
  is evaluated when \<open>iterdir\<close> is called, so its error is raised there.
\<close>

definition iterdir :: "'h heap \<Rightarrow> MQTTPath \<Rightarrow> ('h exn + MQTTPath list) option" where
  "iterdir heap p =
     (if \<not> callable (heap (filetree p))
      then (case children heap p of
              None \<Rightarrow> None
            | Some (Inl e) \<Rightarrow> Some (Inl e)
            | Some (Inr names) \<Rightarrow> Some (Inr (map (truediv p) names)))
      else Some (Inr []))"

section \<open>The classification cache\<close>

datatype Kind = FILE | DIR | MISSING

text \<open>
  \<open>_FsCache._kind_cache\<close> is a dictionary keyed by \<open>MQTTPath\<close>: a key is found when it has
  the hash of the path, which is the hash of its text, and is equal to it by \<open>__eq__\<close>.
\<close>

type_synonym kind_cache = "(MQTTPath \<times> Kind) list"

fun cache_get :: "kind_cache \<Rightarrow> MQTTPath \<Rightarrow> Kind option" where
  "cache_get [] p = None"
| "cache_get ((k, v) # rest) p = (if path_eq k p then Some v else cache_get rest p)"

text \<open>\<open>_FsCache._cache\<close>: the kind and the cache afterwards.\<close>

definition fs_cache :: "'h heap \<Rightarrow> kind_cache \<Rightarrow> MQTTPath \<Rightarrow> (Kind \<times> kind_cache) option" where
  "fs_cache heap c path =
     (case cache_get c path of
        Some k \<Rightarrow> Some (k, c)
      | None \<Rightarrow>
          (case exists_path heap path of
             None \<Rightarrow> None
           | Some e \<Rightarrow>
               if \<not> e then Some (MISSING, c @ [(path, MISSING)])
               else (case is_dir heap path of
                       None \<Rightarrow> None
                     | Some d \<Rightarrow>
                         if d then Some (DIR, c @ [(path, DIR)])
                         else Some (FILE, c @ [(path, FILE)]))))"

definition check_dir :: "'h heap \<Rightarrow> kind_cache \<Rightarrow> MQTTPath \<Rightarrow> (bool \<times> kind_cache) option" where
  "check_dir heap c path = map_option (\<lambda>(k, c'). (k = DIR, c')) (fs_cache heap c path)"

definition check_file :: "'h heap \<Rightarrow> kind_cache \<Rightarrow> MQTTPath \<Rightarrow> (bool \<times> kind_cache) option" where
  "check_file heap c path = map_option (\<lambda>(k, c'). (k = FILE, c')) (fs_cache heap c path)"

definition check_exists :: "'h heap \<Rightarrow> kind_cache \<Rightarrow> MQTTPath \<Rightarrow> (bool \<times> kind_cache) option" where
  "check_exists heap c path = map_option (\<lambda>(k, c'). (\<not> k = MISSING, c')) (fs_cache heap c path)"

text \<open>The cache states that queries produce, starting from the empty dictionary.\<close>

inductive reachable_cache :: "'h heap \<Rightarrow> kind_cache \<Rightarrow> bool" for heap :: "'h heap" where
  initial: "reachable_cache heap []"
| query: "reachable_cache heap c \<Longrightarrow> fs_cache heap c p = Some (k, c') \<Longrightarrow> reachable_cache heap c'"


section \<open>Python values used by the handlers\<close>

text \<open>
  \<open>int(x)\<close> in base 10, as CPython parses it: surrounding whitespace, one optional sign,
  digits with single underscores between them, and the default limit of 4300 digits.
  For \<open>bytes\<close> the whitespace is the ASCII one (9 to 13 and 32). For \<open>str\<close> (code points
  below 256 here) a character below 127 is read as it is, so the ASCII whitespace is the
  same, and of the others only \<open>0x85\<close> and \<open>0xA0\<close> are read as a space; the separators
  \<open>0x1C..0x1F\<close> are not whitespace for \<open>int\<close>.
\<close>

definition isspace_bytes :: "char \<Rightarrow> bool" where
  "isspace_bytes c = (of_char c \<in> {9, 10, 11, 12, 13, 32 :: nat})"

definition isspace_str :: "char \<Rightarrow> bool" where
  "isspace_str c = (isspace_bytes c \<or> of_char c \<in> {133, 160 :: nat})"

definition isdigit :: "char \<Rightarrow> bool" where
  "isdigit c = (48 \<le> (of_char c :: nat) \<and> (of_char c :: nat) \<le> 57)"

definition digit_value :: "char \<Rightarrow> nat" where
  "digit_value c = of_char c - 48"

definition int_max_str_digits :: nat where
  "int_max_str_digits = 4300"

text \<open>
  The scan over digits and underscores: the digits read, the last character read
  (\<open>0\<close> at the start) and the rest; \<open>None\<close> on a double underscore.
\<close>

fun scan_digits :: "string \<Rightarrow> char \<Rightarrow> nat list \<Rightarrow> (nat list \<times> char \<times> string) option" where
  "scan_digits [] prev ds = Some (ds, prev, [])"
| "scan_digits (c # cs) prev ds =
     (if isdigit c then scan_digits cs c (ds @ [digit_value c])
      else if c = CHR ''_'' then (if prev = CHR ''_'' then None else scan_digits cs c ds)
      else Some (ds, prev, c # cs))"

definition strip_sign :: "string \<Rightarrow> bool \<times> string" where
  "strip_sign s =
     (case s of
        [] \<Rightarrow> (False, s)
      | c # rest \<Rightarrow> if c = CHR ''+'' then (False, rest)
                   else if c = CHR ''-'' then (True, rest)
                   else (False, s))"

definition py_int :: "(char \<Rightarrow> bool) \<Rightarrow> string \<Rightarrow> 'h exn + int" where
  "py_int isspace s =
     (case strip_sign (dropWhile isspace s) of
        (negative, body) \<Rightarrow>
          if take 1 body = ''_'' then Inl ValueError
          else (case scan_digits body (CHR 0x00) [] of
                  None \<Rightarrow> Inl ValueError
                | Some (ds, prev, rest) \<Rightarrow>
                    if prev = CHR ''_'' \<or> ds = [] \<or> dropWhile isspace rest \<noteq> []
                       \<or> int_max_str_digits < length ds
                    then Inl ValueError
                    else let magnitude = foldl (\<lambda>a d. 10 * a + int d) 0 ds
                         in Inr (if negative then - magnitude else magnitude)))"

text \<open>\<open>str(n)\<close> of an integer: its decimal digits.\<close>

fun nat_digits :: "nat \<Rightarrow> string" where
  "nat_digits n =
     (if n < 10 then [char_of (48 + n)]
      else nat_digits (n div 10) @ [char_of (48 + n mod 10)])"

declare nat_digits.simps [simp del]

definition py_str :: "int \<Rightarrow> string" where
  "py_str n = (if n < 0 then CHR ''-'' # nat_digits (nat (- n)) else nat_digits (nat n))"

text \<open>
  The values \<open>json.loads\<close> returns. A float is kept as its literal; \<open>json.loads\<close> itself
  belongs to the standard library and is a parameter of the handler that calls it.
\<close>

datatype pyval =
    PyNone
  | PyBool bool
  | PyInt int
  | PyFloat string
  | PyStr string
  | PyList "pyval list"
  | PyDict "(string \<times> pyval) list"

text \<open>\<open>obj[key]\<close> with a text key, \<open>obj.split(c)\<close> and \<open>xs[i]\<close> on a list.\<close>

fun py_getitem :: "pyval \<Rightarrow> string \<Rightarrow> 'h exn + pyval" where
  "py_getitem (PyDict d) key = (case map_of d key of None \<Rightarrow> Inl KeyError | Some v \<Rightarrow> Inr v)"
| "py_getitem other key = Inl TypeError"

fun py_split_method :: "pyval \<Rightarrow> char \<Rightarrow> 'h exn + string list" where
  "py_split_method (PyStr s) c = Inr (py_split c s)"
| "py_split_method other c = Inl AttributeError"

definition py_index :: "'a list \<Rightarrow> nat \<Rightarrow> 'h exn + 'a" where
  "py_index xs i = (if i < length xs then Inr (xs ! i) else Inl IndexError)"

text \<open>\<open>d[k] = v\<close> on a dictionary: in place when the key is there, at the end otherwise.\<close>

fun setitem :: "('k \<times> 'v) list \<Rightarrow> 'k \<Rightarrow> 'v \<Rightarrow> ('k \<times> 'v) list" where
  "setitem [] k v = [(k, v)]"
| "setitem ((k', v') # rest) k v =
     (if k' = k then (k, v) # rest else (k', v') # setitem rest k v)"

definition dict_values :: "('k \<times> 'v) list \<Rightarrow> 'v list" where
  "dict_values d = map snd d"

text \<open>\<open>itertools.groupby\<close> without a key: the runs of equal neighbours.\<close>

function groupby :: "'a list \<Rightarrow> ('a \<times> 'a list) list" where
  "groupby [] = []"
| "groupby (x # xs) =
     (x, x # takeWhile (\<lambda>y. y = x) xs) # groupby (dropWhile (\<lambda>y. y = x) xs)"
  by pat_completeness auto
termination
  by (relation "measure length") (auto simp: length_dropWhile_le less_Suc_eq_le)

text \<open>
  \<open>all_equal\<close> (handlers.py): \<open>next(g, True) and not next(g, False)\<close>; a group is a
  non-empty tuple, hence true.
\<close>

definition all_equal :: "'a list \<Rightarrow> bool" where
  "all_equal iterable =
     (case groupby iterable of
        [] \<Rightarrow> True
      | g1 # gs \<Rightarrow> (case gs of [] \<Rightarrow> True | g2 # _ \<Rightarrow> False))"

section \<open>Devices\<close>

datatype Topics = LUCE_PW | PLUG_1 | PLUG_2 | PLUG_3 | ONLYFANS | TASMOTAS

fun topic_value :: "Topics \<Rightarrow> string" where
  "topic_value LUCE_PW = ''LUCE-pw''"
| "topic_value PLUG_1 = ''tasmota-plug-1''"
| "topic_value PLUG_2 = ''tasmota-plug-2''"
| "topic_value PLUG_3 = ''tasmota-plug-3''"
| "topic_value ONLYFANS = ''onlyfans''"
| "topic_value TASMOTAS = ''tasmotas''"

datatype Tasmotas = Tasmotas_LUCE_PW | Tasmotas_PLUG_1 | Tasmotas_PLUG_2 | Tasmotas_PLUG_3

datatype Onlyfans = Onlyfans_PLUG_2 | Onlyfans_PLUG_3

text \<open>Iterating an enumeration yields its members in the order of their definition.\<close>

definition Tasmotas_members :: "Tasmotas list" where
  "Tasmotas_members = [Tasmotas_LUCE_PW, Tasmotas_PLUG_1, Tasmotas_PLUG_2, Tasmotas_PLUG_3]"

definition Onlyfans_members :: "Onlyfans list" where
  "Onlyfans_members = [Onlyfans_PLUG_2, Onlyfans_PLUG_3]"

section \<open>The transport client and the handlers\<close>

text \<open>
  The client is external: \<open>client.publish\<close> is recorded as a call, in order. The world a
  handler runs in is the client and the process-wide \<open>_FsCache._kind_cache\<close>. A handler
  returns the exception it raised or \<open>()\<close>, with the world as it left it; \<open>None\<close> is a
  classification that does not return. Output of \<open>print\<close> is not modelled.
\<close>

record publish_call =
  pub_topic :: string
  pub_payload :: string
  pub_retain :: bool
  pub_qos :: nat

record world =
  outbox :: "publish_call list"
  cache :: kind_cache

record mqtt_message =
  msg_topic :: string
  msg_payload :: string

definition publish :: "world \<Rightarrow> string \<Rightarrow> string \<Rightarrow> bool \<Rightarrow> nat \<Rightarrow> world" where
  "publish w t p r q =
     w\<lparr>outbox := outbox w @ [\<lparr>pub_topic = t, pub_payload = p, pub_retain = r, pub_qos = q\<rparr>]\<rparr>"

text \<open>\<open>retain\<close>: republish under \<open><topic>/retained\<close>.\<close>

definition retain ::
  "'h heap \<Rightarrow> MQTTPath \<Rightarrow> mqtt_message \<Rightarrow> world \<Rightarrow> (('h exn + unit) \<times> world) option" where
  "retain heap fs msg w =
     (let topic_path = msg_topic msg @ ''/retained'';
          topic = truediv fs topic_path
      in do {
        (d, c1) \<leftarrow> check_dir heap (cache w) topic;
        if d then Some (Inr (), publish (w\<lparr>cache := c1\<rparr>) topic_path (msg_payload msg) True 1)
        else do {
          (e, c2) \<leftarrow> check_exists heap c1 topic;
          if \<not> e then Some (Inl (FileNotFoundError (ArgPath topic)), w\<lparr>cache := c2\<rparr>)
          else Some (Inl (NotADirectoryError (ArgPath topic)), w\<lparr>cache := c2\<rparr>)
        }
      })"

text \<open>
  \<open>time_unmarshalled(timer_index, topic)\<close>: the body of the \<open>try\<close> in \<open>unmarshal\<close>, then
  the handler with its three \<open>except\<close> clauses (\<open>JSONDecodeError\<close> is a \<open>ValueError\<close>).
\<close>

definition unmarshal_try ::
  "(string \<Rightarrow> 'h exn + pyval) \<Rightarrow> 'h heap \<Rightarrow> int \<Rightarrow> Topics \<Rightarrow> MQTTPath \<Rightarrow> mqtt_message
     \<Rightarrow> world \<Rightarrow> (('h exn + unit) \<times> world) option" where
  "unmarshal_try loads heap timer_index device_topic fs msg w =
     (let timer_name = ''Timer'' @ py_str timer_index;
          topic_path = ''stat/'' @ topic_value device_topic @ ''/TIMER'' @ py_str timer_index
                         @ ''/unmarshalled''
      in case loads (msg_payload msg) of Inl e \<Rightarrow> Some (Inl e, w) | Inr payload \<Rightarrow>
         (case py_getitem payload timer_name of Inl e \<Rightarrow> Some (Inl e, w) | Inr timer \<Rightarrow>
         (case py_getitem timer ''Time'' of Inl e \<Rightarrow> Some (Inl e, w) | Inr time \<Rightarrow>
         (case py_split_method time (CHR '':'') of Inl e \<Rightarrow> Some (Inl e, w) | Inr split_time \<Rightarrow>
         (case py_index split_time 0 of Inl e \<Rightarrow> Some (Inl e, w) | Inr hours_text \<Rightarrow>
         (case py_int isspace_str hours_text of Inl e \<Rightarrow> Some (Inl e, w) | Inr hours0 \<Rightarrow>
         (case py_index split_time 1 of Inl e \<Rightarrow> Some (Inl e, w) | Inr minutes_text \<Rightarrow>
         (case py_int isspace_str minutes_text of Inl e \<Rightarrow> Some (Inl e, w) | Inr minutes \<Rightarrow>
            (let hours = (if 30 \<le> minutes then (hours0 + 1) mod 24 else hours0);
                 topic = truediv fs topic_path
             in do {
               (d, c1) \<leftarrow> check_dir heap (cache w) topic;
               if d then Some (Inr (), publish (w\<lparr>cache := c1\<rparr>) topic_path (py_str hours) True 1)
               else do {
                 (e, c2) \<leftarrow> check_exists heap c1 topic;
                 if \<not> e then Some (Inl (FileNotFoundError (ArgPath topic)), w\<lparr>cache := c2\<rparr>)
                 else Some (Inl (NotADirectoryError (ArgPath topic)), w\<lparr>cache := c2\<rparr>)
               }
             })))))))))"

definition time_unmarshalled ::
  "(string \<Rightarrow> 'h exn + pyval) \<Rightarrow> 'h heap \<Rightarrow> int \<Rightarrow> Topics \<Rightarrow> MQTTPath \<Rightarrow> mqtt_message
     \<Rightarrow> world \<Rightarrow> (('h exn + unit) \<times> world) option" where
  "time_unmarshalled loads heap timer_index device_topic fs msg w =
     (case unmarshal_try loads heap timer_index device_topic fs msg w of
        None \<Rightarrow> None
      | Some (Inr u, w') \<Rightarrow> Some (Inr u, w')
      | Some (Inl e, w') \<Rightarrow>
          (case e of
             KeyError \<Rightarrow> Some (Inr (), w')
           | JSONDecodeError \<Rightarrow> Some (Inr (), w')
           | ValueError \<Rightarrow> Some (Inr (), w')
           | _ \<Rightarrow> Some (Inl e, w')))"

section \<open>Aggregation behaviours\<close>

record 'd PowerStatusBehaviour =
  power_state :: "('d \<times> bool) list"
  power_topic :: string

text \<open>\<open>PowerStatusBehaviour.__init__\<close>; \<open>enum\<close> is the list of the members.\<close>

definition PowerStatusBehaviour_init :: "Topics \<Rightarrow> 'd list \<Rightarrow> 'd PowerStatusBehaviour" where
  "PowerStatusBehaviour_init t enum =
     \<lparr>power_state = foldl (\<lambda>st device. setitem st device False) [] enum,
      power_topic = ''stat/'' @ topic_value t @ ''/POWER''\<rparr>"

text \<open>
  \<open>handle_power\<close>. The assignment to \<open>_power_state\<close> is the first statement, so the
  behaviour returned with an exception already holds the new value.
\<close>

definition handle_power ::
  "'h heap \<Rightarrow> 'd PowerStatusBehaviour \<Rightarrow> MQTTPath \<Rightarrow> 'd \<Rightarrow> string \<Rightarrow> world
     \<Rightarrow> (('h exn + unit) \<times> 'd PowerStatusBehaviour \<times> world) option" where
  "handle_power heap self fs device status w =
     (let self1 = self\<lparr>power_state := setitem (power_state self) device (status = ''ON'')\<rparr>;
          topic = truediv fs (power_topic self1)
      in do {
        (d, c1) \<leftarrow> check_dir heap (cache w) topic;
        if d then
          (if list_all (\<lambda>b. b) (dict_values (power_state self1))
           then Some (Inr (), self1, publish (w\<lparr>cache := c1\<rparr>) (power_topic self1) ''ON'' True 1)
           else Some (Inr (), self1, publish (w\<lparr>cache := c1\<rparr>) (power_topic self1) ''OFF'' True 1))
        else do {
          (e, c2) \<leftarrow> check_exists heap c1 topic;
          if \<not> e then Some (Inl (FileNotFoundError (ArgPath topic)), self1, w\<lparr>cache := c2\<rparr>)
          else Some (Inl (NotADirectoryError (ArgPath topic)), self1, w\<lparr>cache := c2\<rparr>)
        }
      })"

record 'd TimerStatusBehaviour =
  timer_state :: "('d \<times> int) list"
  timer_topic :: string

text \<open>\<open>TimerStatusBehaviour.__init__\<close>: every device starts from a different hour.\<close>

definition TimerStatusBehaviour_init ::
  "Topics \<Rightarrow> int \<Rightarrow> 'd list \<Rightarrow> 'd TimerStatusBehaviour" where
  "TimerStatusBehaviour_init t timer_index enum =
     \<lparr>timer_state =
        fst (foldl (\<lambda>(st, different_value) device.
                      (setitem st device different_value, (different_value + 1) mod 24))
                   ([], 0) enum),
      timer_topic = ''stat/'' @ topic_value t @ ''/TIMER'' @ py_str timer_index @ ''/unmarshalled''\<rparr>"

text \<open>\<open>handle_timer\<close>: \<open>int(status)\<close> comes first and its \<open>ValueError\<close> is not caught here.\<close>

definition handle_timer ::
  "'h heap \<Rightarrow> 'd TimerStatusBehaviour \<Rightarrow> MQTTPath \<Rightarrow> 'd \<Rightarrow> string \<Rightarrow> world
     \<Rightarrow> (('h exn + unit) \<times> 'd TimerStatusBehaviour \<times> world) option" where
  "handle_timer heap self fs device status w =
     (case py_int isspace_bytes status of
        Inl e \<Rightarrow> Some (Inl e, self, w)
      | Inr hours \<Rightarrow>
          (let self1 = self\<lparr>timer_state := setitem (timer_state self) device hours\<rparr>;
               topic = truediv fs (timer_topic self1)
           in do {
             (d, c1) \<leftarrow> check_dir heap (cache w) topic;
             if d then
               (if all_equal (dict_values (timer_state self1))
                then Some (Inr (), self1,
                           publish (w\<lparr>cache := c1\<rparr>) (timer_topic self1) (py_str hours) True 1)
                else Some (Inr (), self1,
                           publish (w\<lparr>cache := c1\<rparr>) (timer_topic self1) ''-'' True 1))
             else do {
               (e, c2) \<leftarrow> check_exists heap c1 topic;
               if \<not> e then Some (Inl (FileNotFoundError (ArgPath topic)), self1, w\<lparr>cache := c2\<rparr>)
               else Some (Inl (NotADirectoryError (ArgPath topic)), self1, w\<lparr>cache := c2\<rparr>)
             }
           }))"

text \<open>
  \<open>get_handler(device)\<close> of both behaviours: the handler closes over the behaviour, whose
  state travels with the world here.
\<close>

definition power_get_handler ::
  "'h heap \<Rightarrow> 'd \<Rightarrow> MQTTPath \<Rightarrow> mqtt_message \<Rightarrow> 'd PowerStatusBehaviour \<times> world
     \<Rightarrow> (('h exn + unit) \<times> 'd PowerStatusBehaviour \<times> world) option" where
  "power_get_handler heap device fs msg sw =
     handle_power heap (fst sw) fs device (msg_payload msg) (snd sw)"

definition timer_get_handler ::
  "'h heap \<Rightarrow> 'd \<Rightarrow> MQTTPath \<Rightarrow> mqtt_message \<Rightarrow> 'd TimerStatusBehaviour \<times> world
     \<Rightarrow> (('h exn + unit) \<times> 'd TimerStatusBehaviour \<times> world) option" where
  "timer_get_handler heap device fs msg sw =
     handle_timer heap (fst sw) fs device (msg_payload msg) (snd sw)"

section \<open>The dispatcher\<close>

text \<open>
  \<open>on_message\<close> (__init__.py). \<open>call h fs msg w\<close> runs the handler \<open>h\<close> in the world \<open>w\<close>
  (the client is part of the world). The latency counters only feed a \<open>print\<close> and are
  left out.
\<close>

text \<open>The body of an \<open>except ... as e\<close> clause: both texts of the message are computed.\<close>

definition report_error :: "'h heap \<Rightarrow> MQTTPath \<Rightarrow> 'h exn_arg \<Rightarrow> ('h exn + unit) option" where
  "report_error heap child a =
     (case resolve heap child of
        None \<Rightarrow> None
      | Some h \<Rightarrow>
          (case a of
             ArgPath t \<Rightarrow> (case resolve heap t of None \<Rightarrow> None | Some t' \<Rightarrow> Some (Inr ()))
           | ArgInfo i \<Rightarrow> Some (Inl AttributeError)
           | ArgOther \<Rightarrow> Some (Inl AttributeError)))"

definition except_clauses :: "'h heap \<Rightarrow> MQTTPath \<Rightarrow> 'h exn \<Rightarrow> ('h exn + unit) option" where
  "except_clauses heap child e =
     (case e of
        FileNotFoundError a \<Rightarrow> report_error heap child a
      | NotADirectoryError a \<Rightarrow> report_error heap child a
      | IsADirectoryError a \<Rightarrow> report_error heap child a
      | _ \<Rightarrow> Some (Inl e))"

text \<open>The statement \<open>child.handler(client, fs, msg)\<close> inside the \<open>try\<close>.\<close>

definition invoke ::
  "('h \<Rightarrow> MQTTPath \<Rightarrow> mqtt_message \<Rightarrow> 'w \<Rightarrow> (('h exn + unit) \<times> 'w) option) \<Rightarrow> 'h heap
     \<Rightarrow> MQTTPath \<Rightarrow> mqtt_message \<Rightarrow> MQTTPath \<Rightarrow> 'w \<Rightarrow> (('h exn + unit) \<times> 'w) option" where
  "invoke call heap fs msg child w =
     (case handler heap child of
        None \<Rightarrow> None
      | Some (Inl e) \<Rightarrow> Some (Inl e, w)
      | Some (Inr h) \<Rightarrow> call h fs msg w)"

fun on_message_loop ::
  "('h \<Rightarrow> MQTTPath \<Rightarrow> mqtt_message \<Rightarrow> 'w \<Rightarrow> (('h exn + unit) \<times> 'w) option) \<Rightarrow> 'h heap
     \<Rightarrow> MQTTPath \<Rightarrow> mqtt_message \<Rightarrow> MQTTPath list \<Rightarrow> 'w \<Rightarrow> (('h exn + unit) \<times> 'w) option" where
  "on_message_loop call heap fs msg [] w = Some (Inr (), w)"
| "on_message_loop call heap fs msg (child # rest) w =
     (case is_file heap child of
        None \<Rightarrow> None
      | Some False \<Rightarrow> on_message_loop call heap fs msg rest w
      | Some True \<Rightarrow>
          (case resolve heap child of
             None \<Rightarrow> None
           | Some firing \<Rightarrow>
               (case invoke call heap fs msg child w of
                  None \<Rightarrow> None
                | Some (Inr u, w1) \<Rightarrow> on_message_loop call heap fs msg rest w1
                | Some (Inl e, w1) \<Rightarrow>
                    (case except_clauses heap child e of
                       None \<Rightarrow> None
                     | Some (Inl e') \<Rightarrow> Some (Inl e', w1)
                     | Some (Inr u) \<Rightarrow> on_message_loop call heap fs msg rest w1))))"

definition on_message ::
  "('h \<Rightarrow> MQTTPath \<Rightarrow> mqtt_message \<Rightarrow> 'w \<Rightarrow> (('h exn + unit) \<times> 'w) option) \<Rightarrow> 'h heap
     \<Rightarrow> MQTTPath \<Rightarrow> mqtt_message \<Rightarrow> 'w \<Rightarrow> (('h exn + unit) \<times> 'w) option" where
  "on_message call heap fs msg w =
     (case iterdir heap (truediv fs (msg_topic msg)) of
        None \<Rightarrow> None
      | Some (Inl e) \<Rightarrow> Some (Inl e, w)
      | Some (Inr cs) \<Rightarrow> on_message_loop call heap fs msg cs w)"


section \<open>Notions used in the statements\<close>

text \<open>
  The parts that the loop of \<open>MQTTPath.info\<close> consumes before it returns early: the
  partially walked path. Its length is the depth at which a path is missing.
\<close>

fun walked :: "'h tree_item \<Rightarrow> string list \<Rightarrow> string list" where
  "walked cur [] = []"
| "walked cur (part # rest) =
     (if part \<noteq> curdir \<and> part \<noteq> [sep]
      then (case cur of
              Handler h \<Rightarrow> []
            | Dict d \<Rightarrow> (case map_of d part of
                           None \<Rightarrow> []
                         | Some item \<Rightarrow> part # walked item rest))
      else part # walked cur rest)"

text \<open>The kind that a miss of \<open>_FsCache._cache\<close> stores for a path.\<close>

definition kind_of :: "'h heap \<Rightarrow> MQTTPath \<Rightarrow> Kind option" where
  "kind_of heap p =
     map_option (\<lambda>i. if \<not> exists_flag i then MISSING else if is_dir_flag i then DIR else FILE)
       (info heap p)"

text \<open>The invariant of the cache: every entry holds the kind of its key.\<close>

definition cache_ok :: "'h heap \<Rightarrow> kind_cache \<Rightarrow> bool" where
  "cache_ok heap c = list_all (\<lambda>(k, v). kind_of heap k = Some v) c"

text \<open>A heap with one tree, as in the process: every path refers to \<open>handler_tree\<close>.\<close>

definition heap_of :: "'h tree_item \<Rightarrow> 'h heap" where
  "heap_of t = (\<lambda>ref. t)"

text \<open>
  The part of \<open>handler_tree\<close> (__init__.py) around the timers of the two plugs and the
  topics the behaviours of \<open>Onlyfans\<close> publish to. A leaf is the device that
  \<open>get_handler\<close> was given.
\<close>

definition handler_tree_excerpt :: "Onlyfans tree_item" where
  "handler_tree_excerpt =
     Dict [(''stat'', Dict [
       (''tasmota-plug-2'', Dict [
          (''TIMER1'', Dict [
             (''unmarshalled'', Dict [(''onlyfans-timer'', Handler Onlyfans_PLUG_2)])])]),
       (''tasmota-plug-3'', Dict [
          (''TIMER1'', Dict [
             (''unmarshalled'', Dict [(''onlyfans-timer'', Handler Onlyfans_PLUG_3)])])]),
       (''onlyfans'', Dict [
          (''POWER'', Dict []),
          (''TIMER1'', Dict [(''unmarshalled'', Dict [])])])])]"

text \<open>\<open>fs = MQTTPath(tree=handler_tree)\<close> and the world at start.\<close>

definition fs_root :: MQTTPath where
  "fs_root = \<lparr>filetree = 0, segments = []\<rparr>"

definition world_init :: world where
  "world_init = \<lparr>outbox = [], cache = []\<rparr>"

text \<open>
  The errors that the three \<open>except\<close> clauses of \<open>on_message\<close> handle to the end: a
  classification error whose first argument is the offending \<open>MQTTPath\<close>, as the handlers
  of handlers.py raise them, and whose path resolves.
\<close>

definition classification_error_on :: "'h heap \<Rightarrow> 'h exn \<Rightarrow> bool" where
  "classification_error_on heap e =
     (case e of
        FileNotFoundError (ArgPath t) \<Rightarrow> resolve heap t \<noteq> None
      | NotADirectoryError (ArgPath t) \<Rightarrow> resolve heap t \<noteq> None
      | IsADirectoryError (ArgPath t) \<Rightarrow> resolve heap t \<noteq> None
      | _ \<Rightarrow> False)"

text \<open>
  What the specification asks of the dispatcher, in its words: every child that is a Leaf
  has its handler invoked, in order, each in the world its predecessor left, whatever
  the earlier handlers raised.
\<close>

fun run_children ::
  "('h \<Rightarrow> MQTTPath \<Rightarrow> mqtt_message \<Rightarrow> 'w \<Rightarrow> (('h exn + unit) \<times> 'w) option) \<Rightarrow> 'h heap
     \<Rightarrow> MQTTPath \<Rightarrow> mqtt_message \<Rightarrow> MQTTPath list \<Rightarrow> 'w \<Rightarrow> 'w option" where
  "run_children call heap fs msg [] w = Some w"
| "run_children call heap fs msg (child # rest) w =
     (case handler heap child of
        Some (Inr h) \<Rightarrow>
          (case call h fs msg w of
             None \<Rightarrow> None
           | Some (r, w1) \<Rightarrow> run_children call heap fs msg rest w1)
      | _ \<Rightarrow> run_children call heap fs msg rest w)"

text \<open>
  The head that \<open>posixpath.split\<close> cuts at the last separator, before trailing
  separators are stripped from it.
\<close>

definition raw_head :: "string \<Rightarrow> string" where
  "raw_head p = take (nat (rfind sep p + 1)) p"

section \<open>Classification: basic facts\<close>

lemma mk_info_parts [simp]: "parts_field (mk_info parts item) = parts"
  by (simp add: mk_info_def split: option.splits tree_item.splits)

lemma mk_info_exists: "exists_flag (mk_info parts item) = (item \<noteq> None)"
  by (simp add: mk_info_def split: option.splits tree_item.splits)

lemma mk_info_flags:
  "is_dir_flag (mk_info parts item) \<Longrightarrow> exists_flag (mk_info parts item)"
  "is_file_flag (mk_info parts item) =
     (exists_flag (mk_info parts item) \<and> \<not> is_dir_flag (mk_info parts item))"
  by (auto simp: mk_info_def split: option.splits tree_item.splits)

lemma mk_info_fields:
  "children_field (mk_info parts item) = None \<longleftrightarrow> \<not> is_dir_flag (mk_info parts item)"
  "handler_field (mk_info parts item) = None \<longleftrightarrow> \<not> is_file_flag (mk_info parts item)"
  by (auto simp: mk_info_def split: option.splits tree_item.splits)

lemma info_flags:
  assumes "info heap p = Some i"
  shows "is_dir_flag i \<Longrightarrow> exists_flag i"
    and "is_file_flag i = (exists_flag i \<and> \<not> is_dir_flag i)"
  using assms by (auto simp: info_def mk_info_flags split: option.splits)

lemma info_fields:
  assumes "info heap p = Some i"
  shows "children_field i = None \<longleftrightarrow> \<not> is_dir_flag i"
    and "handler_field i = None \<longleftrightarrow> \<not> is_file_flag i"
  using assms by (auto simp: info_def mk_info_fields split: option.splits)

lemma info_path_eq: "path_eq k p \<Longrightarrow> info heap k = info heap p"
  by (auto simp: path_eq_def info_def split: option.splits)

lemma info_walk_None_parts:
  "info_walk cur parts = None \<Longrightarrow> \<exists>name rest. parts = walked cur parts @ name # rest"
  by (induction cur parts rule: info_walk.induct)
     (auto split: tree_item.splits option.splits if_splits)

section \<open>When classification returns\<close>

text \<open>
  The loop of \<open>__parts\<close> ends exactly on a text that does not start with the separator,
  and \<open>normpath\<close> keeps a leading separator; so a path is classified exactly when its
  joined text does not start with \<open>/\<close>.
\<close>

lemma rfind_lower: "- 1 \<le> rfind c xs"
  by (induction xs) (auto simp: Let_def)

lemma rfind_upper: "rfind c xs < int (length xs)"
  by (induction xs) (auto simp: Let_def)

lemma raw_head_Nil [simp]: "raw_head [] = []"
  by (simp add: raw_head_def)

lemma raw_head_Cons:
  "raw_head (x # xs) = (if raw_head xs \<noteq> [] \<or> x = sep then x # raw_head xs else [])"
proof (cases "0 \<le> rfind sep xs")
  case True
  with rfind_upper[of sep xs] have "xs \<noteq> []" by auto
  with True show ?thesis
    by (auto simp: raw_head_def Let_def nat_add_distrib)
next
  case False
  with rfind_lower[of sep xs] have "rfind sep xs = - 1" by simp
  then show ?thesis
    by (auto simp: raw_head_def Let_def)
qed

lemma raw_head_full: "raw_head p = p \<Longrightarrow> p \<noteq> [] \<Longrightarrow> last p = sep"
  by (induction p) (auto simp: raw_head_Cons split: if_splits)

lemma raw_head_length: "length (raw_head p) \<le> length p"
  by (simp add: raw_head_def)

lemma raw_head_rel: "\<not> startswith_sep p \<Longrightarrow> \<not> startswith_sep (raw_head p)"
  by (cases p) (auto simp: startswith_sep_def raw_head_Cons)

lemma raw_head_abs: "startswith_sep p \<Longrightarrow> startswith_sep (raw_head p)"
  by (cases p) (auto simp: startswith_sep_def raw_head_Cons)

lemma rstrip_sep_decomp: "s = rstrip_sep s @ rev (takeWhile (\<lambda>c. c = sep) (rev s))"
proof -
  have "s = rev (takeWhile (\<lambda>c. c = sep) (rev s) @ dropWhile (\<lambda>c. c = sep) (rev s))"
    by simp
  also have "\<dots> = rev (dropWhile (\<lambda>c. c = sep) (rev s)) @ rev (takeWhile (\<lambda>c. c = sep) (rev s))"
    by (simp only: rev_append)
  finally show ?thesis by (simp only: rstrip_sep_def)
qed

lemma rstrip_sep_length: "length (rstrip_sep s) \<le> length s"
  by (simp add: rstrip_sep_def length_dropWhile_le[of _ "rev s", simplified])

lemma rstrip_sep_shorter: "s \<noteq> [] \<Longrightarrow> last s = sep \<Longrightarrow> length (rstrip_sep s) < length s"
proof -
  assume a: "s \<noteq> []" "last s = sep"
  then obtain ys where r: "rev s = sep # ys"
    by (cases "rev s") (auto simp: last_rev[symmetric] hd_rev)
  then have "length (rev s) = Suc (length ys)" by simp
  then have l: "length s = Suc (length ys)" by simp
  from r have "rstrip_sep s = rev (dropWhile (\<lambda>c. c = sep) ys)"
    by (simp add: rstrip_sep_def)
  with l show ?thesis
    using length_dropWhile_le[of "\<lambda>c. c = sep" ys] by simp
qed

lemma rstrip_sep_rel: "\<not> startswith_sep s \<Longrightarrow> \<not> startswith_sep (rstrip_sep s)"
proof -
  assume a: "\<not> startswith_sep s"
  show ?thesis
  proof (cases "rstrip_sep s")
    case Nil
    then show ?thesis by (simp add: startswith_sep_def)
  next
    case (Cons x xs)
    with rstrip_sep_decomp[of s] have "s = x # xs @ rev (takeWhile (\<lambda>c. c = sep) (rev s))" by simp
    then obtain r where "s = x # r" by blast
    with a Cons show ?thesis by (simp add: startswith_sep_def)
  qed
qed

lemma all_sep_replicate: "(\<forall>c \<in> set s. c = sep) \<Longrightarrow> s = replicate (length s) sep"
  by (induction s) auto

lemma rstrip_sep_abs:
  assumes "startswith_sep s" and "s \<noteq> replicate (length s) sep"
  shows "startswith_sep (rstrip_sep s)"
proof (cases "rstrip_sep s")
  case Nil
  with rstrip_sep_decomp[of s] have "s = rev (takeWhile (\<lambda>c. c = sep) (rev s))" by simp
  then have "set s = set (takeWhile (\<lambda>c. c = sep) (rev s))" by (metis set_rev)
  then have "\<forall>c \<in> set s. c = sep" by (metis set_takeWhileD)
  from all_sep_replicate[OF this] assms(2) show ?thesis by simp
next
  case (Cons x xs)
  with rstrip_sep_decomp[of s] have "s = x # xs @ rev (takeWhile (\<lambda>c. c = sep) (rev s))" by simp
  then obtain r where "s = x # r" by blast
  with assms(1) Cons show ?thesis by (simp add: startswith_sep_def)
qed

lemma posix_split_fst:
  "fst (posix_split p) =
     (if raw_head p \<noteq> [] \<and> raw_head p \<noteq> replicate (length (raw_head p)) sep
      then rstrip_sep (raw_head p) else raw_head p)"
  by (simp add: posix_split_def raw_head_def Let_def)

lemma posix_split_rel:
  assumes "\<not> startswith_sep p" and "p \<noteq> []"
  shows "length (fst (posix_split p)) < length p" and "\<not> startswith_sep (fst (posix_split p))"
proof -
  show "\<not> startswith_sep (fst (posix_split p))"
    using raw_head_rel[OF assms(1)] rstrip_sep_rel by (simp add: posix_split_fst)
  show "length (fst (posix_split p)) < length p"
  proof (cases "raw_head p = []")
    case True
    with assms(2) show ?thesis by (simp add: posix_split_fst)
  next
    case False
    from raw_head_rel[OF assms(1)] False
    have ns: "raw_head p \<noteq> replicate (length (raw_head p)) sep"
      by (cases "raw_head p") (auto simp: startswith_sep_def)
    show ?thesis
    proof (cases "raw_head p = p")
      case True
      with raw_head_full[OF True assms(2)] assms(2) ns False
      show ?thesis by (simp add: posix_split_fst rstrip_sep_shorter)
    next
      case neq: False
      have "length (raw_head p) < length p"
        using neq by (cases "nat (rfind sep p + 1) < length p") (auto simp: raw_head_def)
      with rstrip_sep_length[of "raw_head p"] ns False show ?thesis
        by (simp add: posix_split_fst)
    qed
  qed
qed

lemma posix_split_abs:
  assumes "startswith_sep p"
  shows "startswith_sep (fst (posix_split p))"
  using raw_head_abs[OF assms] rstrip_sep_abs by (simp add: posix_split_fst)


lemma parts_loop_rel: "\<not> startswith_sep s \<Longrightarrow> \<exists>ps. parts_loop s acc = Some ps"
proof (induction s arbitrary: acc rule: length_induct)
  case (1 s)
  show ?case
  proof (cases "s = []")
    case True
    then show ?thesis by (subst parts_loop.simps) simp
  next
    case False
    obtain h t where sp: "posix_split s = (h, t)" by (cases "posix_split s")
    with posix_split_rel[OF "1.prems" False] have "length h < length s" "\<not> startswith_sep h"
      by simp_all
    with "1.IH" obtain ps where "parts_loop h (acc @ [t]) = Some ps" by blast
    with False sp show ?thesis by (subst parts_loop.simps) simp
  qed
qed

lemma parts_loop_Some_rel:
  assumes "parts_loop s acc = Some ps"
  shows "\<not> startswith_sep s"
proof (rule parts_loop.raw_induct[where P = "\<lambda>h a y. \<not> startswith_sep h", OF _ assms])
  fix loop :: "string \<Rightarrow> string list \<Rightarrow> string list option" and head parts y
  assume IH: "\<And>h a y. loop h a = Some y \<Longrightarrow> \<not> startswith_sep h"
    and eq: "(if length head \<noteq> 0
              then case posix_split head of (head', tail) \<Rightarrow> loop head' (parts @ [tail])
              else Some parts) = Some y"
  show "\<not> startswith_sep head"
  proof (cases "head = []")
    case True
    then show ?thesis by (simp add: startswith_sep_def)
  next
    case False
    obtain h t where sp: "posix_split head = (h, t)" by (cases "posix_split head")
    with False eq have "loop h (parts @ [t]) = Some y" by simp
    from IH[OF this] have "\<not> startswith_sep h" .
    with posix_split_abs[of head] sp show ?thesis by auto
  qed
qed

lemma path_parts_returns: "path_parts s \<noteq> None \<longleftrightarrow> \<not> startswith_sep s"
  using parts_loop_rel[of s "[]"] parts_loop_Some_rel[of s "[]"]
  by (auto simp: path_parts_def)

lemma py_split_no_sep: "w \<in> set (py_split c s) \<Longrightarrow> c \<notin> set w"
  by (induction s arbitrary: w) (auto split: if_splits list.splits)

lemma norm_step_subset:
  "set (norm_step n acc w) \<subseteq> set acc \<union> (if w = [] then {} else {w})"
  by (auto simp: norm_step_def dest: in_set_butlastD)

lemma foldl_norm_step_subset:
  "set (foldl (norm_step n) acc ws) \<subseteq> set acc \<union> {w \<in> set ws. w \<noteq> []}"
proof (induction ws arbitrary: acc)
  case Nil
  show ?case by simp
next
  case (Cons w ws)
  from Cons.IH[of "norm_step n acc w"] norm_step_subset[of n acc w]
  show ?case by (auto split: if_splits)
qed

lemma sep_join_start:
  "\<forall>w \<in> set ws. w \<noteq> [] \<and> \<not> startswith_sep w \<Longrightarrow> \<not> startswith_sep (sep_join ws)"
  by (induction ws rule: sep_join.induct)
     (auto simp: startswith_sep_def split: list.splits)

lemma normpath_rel: "\<not> startswith_sep s \<Longrightarrow> \<not> startswith_sep (normpath s)"
proof -
  assume a: "\<not> startswith_sep s"
  let ?comps = "foldl (norm_step 0) [] (py_split sep s)"
  have "\<forall>w \<in> set ?comps. w \<noteq> [] \<and> \<not> startswith_sep w"
  proof
    fix w assume "w \<in> set ?comps"
    with foldl_norm_step_subset[of 0 "[]" "py_split sep s"]
    have "w \<in> set (py_split sep s)" "w \<noteq> []" by auto
    with py_split_no_sep[of w sep s] show "w \<noteq> [] \<and> \<not> startswith_sep w"
      by (cases w) (auto simp: startswith_sep_def)
  qed
  from sep_join_start[OF this] have j: "\<not> startswith_sep (sep_join ?comps)" .
  have dot: "\<not> startswith_sep ''.''"
    by (simp add: startswith_sep_def sep_def)
  have is0: "initial_slashes_of s = 0"
    using a by (simp add: initial_slashes_of_def)
  from j dot is0 show ?thesis
    by (simp add: normpath_def Let_def)
qed

lemma normpath_abs: "startswith_sep s \<Longrightarrow> startswith_sep (normpath s)"
proof -
  assume a: "startswith_sep s"
  then have ne: "s \<noteq> []" by (auto simp: startswith_sep_def)
  from a have "initial_slashes_of s = Suc 0 \<or> initial_slashes_of s = Suc (Suc 0)"
    by (simp add: initial_slashes_of_def)
  then obtain n where n: "initial_slashes_of s = Suc n" by blast
  from ne show ?thesis
    by (simp add: normpath_def Let_def n startswith_sep_def)
qed

lemma info_returns: "info heap p \<noteq> None \<longleftrightarrow> \<not> startswith_sep (str_path p)"
proof -
  have "info heap p \<noteq> None \<longleftrightarrow> path_parts (normpath (str_path p)) \<noteq> None"
    by (simp add: info_def split: option.splits)
  also have "\<dots> \<longleftrightarrow> \<not> startswith_sep (normpath (str_path p))"
    by (rule path_parts_returns)
  also have "\<dots> \<longleftrightarrow> \<not> startswith_sep (str_path p)"
    using normpath_rel normpath_abs by blast
  finally show ?thesis .
qed

lemma child_returns:
  assumes "info heap p \<noteq> None" and "\<not> startswith_sep name"
  shows "info heap (truediv p name) \<noteq> None"
proof -
  from assms(1) info_returns[of heap p] have r: "\<not> startswith_sep (str_path p)"
    by blast
  have "str_path (truediv p name) = join_step (str_path p) name"
    by (simp add: truediv_def with_segments_def str_path_def posix_join_def)
  with r assms(2) have "\<not> startswith_sep (str_path (truediv p name))"
    by (cases "str_path p") (auto simp: join_step_def startswith_sep_def)
  with info_returns[of heap "truediv p name"] show ?thesis
    by blast
qed

section \<open>Canonical segments of a missing path\<close>

text \<open>
  Claim C2, as amended. For a path that classifies as Missing, the segment list of the
  classification is the whole list of parts of the normalised text: the walked prefix,
  then the first name that is missing, then every later name. It is therefore strictly
  longer than the depth at which the path is missing.
\<close>

theorem missing_segments:
  assumes "info heap p = Some i" and "\<not> exists_flag i"
  shows "path_parts (normpath (str_path p)) = Some (parts_field i)
       \<and> (\<exists>name rest. parts_field i = walked (heap (filetree p)) (parts_field i) @ name # rest)
       \<and> length (walked (heap (filetree p)) (parts_field i)) < length (parts_field i)"
proof -
  from assms(1) obtain parts where
    ps: "path_parts (normpath (str_path p)) = Some parts"
    and i: "i = mk_info parts (info_walk (heap (filetree p)) parts)"
    by (auto simp: info_def split: option.splits)
  from assms(2) i have "info_walk (heap (filetree p)) parts = None"
    by (simp add: mk_info_exists)
  from info_walk_None_parts[OF this] obtain name rest
    where e: "parts = walked (heap (filetree p)) parts @ name # rest" by blast
  have "length (walked (heap (filetree p)) parts) < length parts"
    by (subst (2) e) simp
  with ps i e show ?thesis by auto
qed

theorem missing_segments_witness:
  "info (heap_of (Dict [(''a'', Dict [])] :: nat tree_item))
        \<lparr>filetree = 0, segments = [''a/b/c'']\<rparr> = Some (mk_info [''a'', ''b'', ''c''] None)
   \<and> \<not> exists_flag (mk_info [''a'', ''b'', ''c''] None :: nat MQTTPathInfo)
   \<and> length (walked (Dict [(''a'', Dict [])] :: nat tree_item) [''a'', ''b'', ''c'']) < 3"
proof -
  have h1: "info (heap_of (Dict [(''a'', Dict [])] :: nat tree_item))
        \<lparr>filetree = 0, segments = [''a/b/c'']\<rparr> = Some (mk_info [''a'', ''b'', ''c''] None)"
    by code_simp
  have h2: "\<not> exists_flag (mk_info [''a'', ''b'', ''c''] None :: nat MQTTPathInfo)"
    by (simp add: mk_info_exists)
  from missing_segments[OF h1 h2] h1 h2 show ?thesis
    by (simp add: heap_of_def)
qed

text \<open>
  The claim as stated fails: under the tree \<open>{"a": {}}\<close> the path \<open>a/b/c\<close> is missing at
  depth 1 (only \<open>a\<close> is walked), and its classification holds three segments.
\<close>

theorem missing_segments_counterexample:
  "exists_path (heap_of (Dict [(''a'', Dict [])] :: nat tree_item))
        \<lparr>filetree = 0, segments = [''a/b/c'']\<rparr> = Some False
   \<and> walked (Dict [(''a'', Dict [])] :: nat tree_item) [''a'', ''b'', ''c''] = [''a'']
   \<and> map_option parts_field (info (heap_of (Dict [(''a'', Dict [])] :: nat tree_item))
        \<lparr>filetree = 0, segments = [''a/b/c'']\<rparr>) = Some [''a'', ''b'', ''c'']
   \<and> map_option (\<lambda>i. length (parts_field i)) (info (heap_of (Dict [(''a'', Dict [])] :: nat tree_item))
        \<lparr>filetree = 0, segments = [''a/b/c'']\<rparr>) \<noteq> Some 1"
  by code_simp


section \<open>Enumerating the children of a path\<close>

text \<open>
  Claim C3, as amended. When the root of the tree of a path is a mapping, \<open>iterdir\<close> on a
  path that classifies as a Leaf raises \<open>NotADirectoryError\<close>, and on a path that
  classifies as Missing it raises \<open>FileNotFoundError\<close>. It returns the empty sequence
  without raising when the root of the tree is itself a handler, whatever the path.
\<close>

theorem iterdir_outcomes:
  assumes "info heap p = Some i"
  shows "(callable (heap (filetree p)) \<longrightarrow> iterdir heap p = Some (Inr []))
       \<and> (\<not> callable (heap (filetree p)) \<and> is_file_flag i \<longrightarrow>
            iterdir heap p = Some (Inl (NotADirectoryError (ArgInfo i))))
       \<and> (\<not> callable (heap (filetree p)) \<and> \<not> exists_flag i \<longrightarrow>
            iterdir heap p = Some (Inl (FileNotFoundError (ArgInfo i))))"
  using assms info_flags[OF assms] info_fields[OF assms]
  by (auto simp: iterdir_def children_def info_children_def split: option.splits)

theorem iterdir_outcomes_witness:
  "info (heap_of (Dict [(''a'', Handler (0::nat))])) \<lparr>filetree = 0, segments = [''a'']\<rparr>
     = Some (mk_info [''a''] (Some (Handler 0)))
   \<and> \<not> callable (Dict [(''a'', Handler (0::nat))])
   \<and> is_file_flag (mk_info [''a''] (Some (Handler (0::nat))))
   \<and> iterdir (heap_of (Dict [(''a'', Handler (0::nat))])) \<lparr>filetree = 0, segments = [''a'']\<rparr>
       = Some (Inl (NotADirectoryError (ArgInfo (mk_info [''a''] (Some (Handler 0))))))
   \<and> info (heap_of (Dict [(''a'', Handler (0::nat))])) \<lparr>filetree = 0, segments = [''b'']\<rparr>
     = Some (mk_info [''b''] None)
   \<and> \<not> exists_flag (mk_info [''b''] None :: nat MQTTPathInfo)
   \<and> iterdir (heap_of (Dict [(''a'', Handler (0::nat))])) \<lparr>filetree = 0, segments = [''b'']\<rparr>
       = Some (Inl (FileNotFoundError (ArgInfo (mk_info [''b''] None))))
   \<and> info (heap_of (Handler (0::nat))) \<lparr>filetree = 0, segments = [''b'']\<rparr>
     = Some (mk_info [''b''] None)
   \<and> callable (Handler (0::nat))
   \<and> iterdir (heap_of (Handler (0::nat))) \<lparr>filetree = 0, segments = [''b'']\<rparr> = Some (Inr [])"
proof -
  have a: "info (heap_of (Dict [(''a'', Handler (0::nat))])) \<lparr>filetree = 0, segments = [''a'']\<rparr>
     = Some (mk_info [''a''] (Some (Handler 0)))"
    by code_simp
  have b: "info (heap_of (Dict [(''a'', Handler (0::nat))])) \<lparr>filetree = 0, segments = [''b'']\<rparr>
     = Some (mk_info [''b''] None)"
    by code_simp
  have c: "info (heap_of (Handler (0::nat))) \<lparr>filetree = 0, segments = [''b'']\<rparr>
     = Some (mk_info [''b''] None)"
    by code_simp
  have fa: "is_file_flag (mk_info [''a''] (Some (Handler (0::nat))))"
    and fb: "\<not> exists_flag (mk_info [''b''] None :: nat MQTTPathInfo)"
    by (simp_all add: mk_info_def)
  from iterdir_outcomes[OF a] iterdir_outcomes[OF b] iterdir_outcomes[OF c] a b c fa fb
  show ?thesis
    by (simp add: heap_of_def)
qed

text \<open>
  The claim as stated fails: under the tree \<open>{"a": handler}\<close> the path \<open>a\<close> classifies as
  a Leaf, and enumerating its children raises \<open>NotADirectoryError\<close>.
\<close>

theorem iterdir_leaf_counterexample:
  "is_file (heap_of (Dict [(''a'', Handler (0::nat))])) \<lparr>filetree = 0, segments = [''a'']\<rparr>
     = Some True
   \<and> iterdir (heap_of (Dict [(''a'', Handler (0::nat))])) \<lparr>filetree = 0, segments = [''a'']\<rparr>
       = Some (Inl (NotADirectoryError (ArgInfo (mk_info [''a''] (Some (Handler 0))))))
   \<and> iterdir (heap_of (Dict [(''a'', Handler (0::nat))])) \<lparr>filetree = 0, segments = [''a'']\<rparr>
       \<noteq> Some (Inr [])"
  by code_simp

section \<open>The cache against direct classification\<close>

lemma kind_of_path_eq: "path_eq k p \<Longrightarrow> kind_of heap k = kind_of heap p"
  by (simp add: kind_of_def info_path_eq)

lemma cache_get_ok:
  "cache_ok heap c \<Longrightarrow> cache_get c p = Some v \<Longrightarrow> kind_of heap p = Some v"
  by (induction c p rule: cache_get.induct)
     (auto simp: cache_ok_def kind_of_path_eq split: if_splits)

lemma fs_cache_kind:
  assumes "cache_ok heap c"
  shows "map_option fst (fs_cache heap c p) = kind_of heap p"
proof (cases "cache_get c p")
  case (Some v)
  with cache_get_ok[OF assms Some] show ?thesis by (simp add: fs_cache_def)
next
  case None
  then show ?thesis
    by (cases "info heap p")
       (auto simp: fs_cache_def kind_of_def exists_path_def is_dir_def)
qed

lemma fs_cache_ok:
  assumes "cache_ok heap c" and "fs_cache heap c p = Some (k, c')"
  shows "cache_ok heap c'"
proof (cases "cache_get c p")
  case (Some v)
  with assms show ?thesis by (simp add: fs_cache_def)
next
  case None
  from fs_cache_kind[OF assms(1), of p] assms(2) have k: "kind_of heap p = Some k" by simp
  from None assms(2) have "c' = c @ [(p, k)]"
    by (auto simp: fs_cache_def split: option.splits if_splits)
  with assms(1) k show ?thesis by (simp add: cache_ok_def)
qed

lemma reachable_cache_ok: "reachable_cache heap c \<Longrightarrow> cache_ok heap c"
proof (induction rule: reachable_cache.induct)
  case initial
  show ?case by (simp add: cache_ok_def)
next
  case (query c p k c')
  then show ?case by (blast intro: fs_cache_ok)
qed

text \<open>
  Claim C4. In every cache state that earlier queries can produce, the three cached
  queries return what direct classification returns (and do not return exactly when
  it does not): the cache cannot be observed.
\<close>

theorem cache_agrees:
  assumes "reachable_cache heap c"
  shows "map_option fst (check_dir heap c p) = is_dir heap p
       \<and> map_option fst (check_file heap c p) = is_file heap p
       \<and> map_option fst (check_exists heap c p) = exists_path heap p"
proof -
  have ok: "cache_ok heap c" using assms by (rule reachable_cache_ok)
  have k: "map_option fst (fs_cache heap c p) = kind_of heap p" by (rule fs_cache_kind[OF ok])
  show ?thesis
  proof (cases "info heap p")
    case None
    with k show ?thesis
      by (simp add: check_dir_def check_file_def check_exists_def kind_of_def
                    is_dir_def is_file_def exists_path_def)
  next
    case (Some i)
    with k obtain c' where
      "fs_cache heap c p =
         Some ((if \<not> exists_flag i then MISSING else if is_dir_flag i then DIR else FILE), c')"
      by (cases "fs_cache heap c p") (auto simp: kind_of_def)
    with Some info_flags[OF Some] show ?thesis
      by (auto simp: check_dir_def check_file_def check_exists_def
                     is_dir_def is_file_def exists_path_def)
  qed
qed

theorem cache_agrees_witness:
  "reachable_cache (heap_of handler_tree_excerpt)
      [(truediv fs_root ''stat/onlyfans/POWER'', DIR)]
   \<and> map_option fst (check_dir (heap_of handler_tree_excerpt)
        [(truediv fs_root ''stat/onlyfans/POWER'', DIR)]
        \<lparr>filetree = 0, segments = [''stat'', ''onlyfans'', ''POWER'']\<rparr>) = Some True
   \<and> is_dir (heap_of handler_tree_excerpt)
        \<lparr>filetree = 0, segments = [''stat'', ''onlyfans'', ''POWER'']\<rparr> = Some True"
proof -
  have "fs_cache (heap_of handler_tree_excerpt) [] (truediv fs_root ''stat/onlyfans/POWER'')
          = Some (DIR, [(truediv fs_root ''stat/onlyfans/POWER'', DIR)])"
    by code_simp
  with reachable_cache.initial
  have r: "reachable_cache (heap_of handler_tree_excerpt)
             [(truediv fs_root ''stat/onlyfans/POWER'', DIR)]"
    by (rule reachable_cache.query)
  have d: "is_dir (heap_of handler_tree_excerpt)
        \<lparr>filetree = 0, segments = [''stat'', ''onlyfans'', ''POWER'']\<rparr> = Some True"
    by code_simp
  from cache_agrees[OF r, of "\<lparr>filetree = 0, segments = [''stat'', ''onlyfans'', ''POWER'']\<rparr>"] r d
  show ?thesis by simp
qed

section \<open>Equality of paths\<close>

text \<open>
  Claim C5, as amended. Two paths are equal exactly when they refer to the same tree
  object and the joined texts of their segments are equal; the text compared is not
  normalised. Equal paths have the same normalised text and the same classification.
\<close>

theorem path_eq_joined_text:
  "path_eq p q = (filetree p = filetree q \<and> str_path p = str_path q)
   \<and> (path_eq p q \<longrightarrow>
        normpath (str_path p) = normpath (str_path q) \<and> info heap p = info heap q)"
  by (auto simp: info_path_eq) (auto simp: path_eq_def)

theorem path_eq_joined_text_witness:
  "path_eq \<lparr>filetree = 0, segments = [''stat'', [], ''onlyfans'']\<rparr>
           \<lparr>filetree = 0, segments = [''stat/onlyfans'']\<rparr>
   \<and> normpath (str_path \<lparr>filetree = 0, segments = [''stat'', [], ''onlyfans'']\<rparr>)
       = normpath (str_path \<lparr>filetree = 0, segments = [''stat/onlyfans'']\<rparr>)
   \<and> info (heap_of handler_tree_excerpt) \<lparr>filetree = 0, segments = [''stat'', [], ''onlyfans'']\<rparr>
       = info (heap_of handler_tree_excerpt) \<lparr>filetree = 0, segments = [''stat/onlyfans'']\<rparr>"
proof -
  have e: "path_eq \<lparr>filetree = 0, segments = [''stat'', [], ''onlyfans'']\<rparr>
                   \<lparr>filetree = 0, segments = [''stat/onlyfans'']\<rparr>"
    by code_simp
  from path_eq_joined_text[of "\<lparr>filetree = 0, segments = [''stat'', [], ''onlyfans'']\<rparr>"
         "\<lparr>filetree = 0, segments = [''stat/onlyfans'']\<rparr>" "heap_of handler_tree_excerpt"] e
  show ?thesis by blast
qed

text \<open>
  The claim as stated fails: over one tree, the segments \<open>a, ., b\<close> and \<open>a, b\<close> have the
  same normalised text \<open>a/b\<close>, and the paths are not equal.
\<close>

theorem path_eq_counterexample:
  "filetree \<lparr>filetree = 0, segments = [''a'', ''.'', ''b'']\<rparr>
     = filetree \<lparr>filetree = 0, segments = [''a'', ''b'']\<rparr>
   \<and> normpath (str_path \<lparr>filetree = 0, segments = [''a'', ''.'', ''b'']\<rparr>)
       = normpath (str_path \<lparr>filetree = 0, segments = [''a'', ''b'']\<rparr>)
   \<and> \<not> path_eq \<lparr>filetree = 0, segments = [''a'', ''.'', ''b'']\<rparr>
                \<lparr>filetree = 0, segments = [''a'', ''b'']\<rparr>"
  by code_simp


section \<open>The classify-before-publish guard\<close>

lemma fs_cache_reachable:
  assumes "reachable_cache heap c" and "kind_of heap t = Some k"
  shows "\<exists>c1. fs_cache heap c t = Some (k, c1) \<and> reachable_cache heap c1"
proof -
  have "map_option fst (fs_cache heap c t) = Some k"
    using fs_cache_kind[OF reachable_cache_ok[OF assms(1)], of t] assms(2) by simp
  then obtain c1 where f: "fs_cache heap c t = Some (k, c1)"
    by (cases "fs_cache heap c t") auto
  with assms(1) have "reachable_cache heap c1" by (rule reachable_cache.query)
  with f show ?thesis by blast
qed

lemma guard_dir:
  assumes "reachable_cache heap c" and "is_dir heap t = Some True"
  shows "\<exists>c1. check_dir heap c t = Some (True, c1) \<and> reachable_cache heap c1"
proof -
  from assms(2) obtain j where j: "info heap t = Some j" "is_dir_flag j"
    by (auto simp: is_dir_def)
  with info_flags(1)[OF j(1)] have "kind_of heap t = Some DIR" by (simp add: kind_of_def)
  from fs_cache_reachable[OF assms(1) this] show ?thesis
    by (auto simp: check_dir_def)
qed

lemma guard_not_dir:
  assumes "reachable_cache heap c" and "info heap t = Some j" and "\<not> is_dir_flag j"
  shows "\<exists>c1 c2. check_dir heap c t = Some (False, c1)
            \<and> check_exists heap c1 t = Some (exists_flag j, c2) \<and> reachable_cache heap c2"
proof -
  have k: "kind_of heap t = Some (if \<not> exists_flag j then MISSING else FILE)"
    using assms(2,3) by (simp add: kind_of_def)
  from fs_cache_reachable[OF assms(1) k] obtain c1 where
    c1: "fs_cache heap c t = Some ((if \<not> exists_flag j then MISSING else FILE), c1)"
        "reachable_cache heap c1" by blast
  from fs_cache_reachable[OF c1(2) k] obtain c2 where
    c2: "fs_cache heap c1 t = Some ((if \<not> exists_flag j then MISSING else FILE), c2)"
        "reachable_cache heap c2" by blast
  from c1 c2 show ?thesis
    by (auto simp: check_dir_def check_exists_def)
qed

lemma map_of_setitem: "map_of (setitem d k v) = (map_of d)(k \<mapsto> v)"
  by (induction d k v rule: setitem.induct) auto

section \<open>Errors of the wrong kind\<close>

text \<open>
  Claim C6. The handler of a path that classifies as a Directory raises
  \<open>IsADirectoryError\<close>, of a Missing path \<open>FileNotFoundError\<close>, and a Leaf has a handler.
  \<open>retain\<close>, which publishes into \<open><topic>/retained\<close>, raises \<open>NotADirectoryError\<close> when
  that target classifies as a Leaf and \<open>FileNotFoundError\<close> when it is Missing, publishing
  nothing; it publishes when the target is a Directory. The three kinds exclude one
  another, so no other classification error arises from these operations.
\<close>

theorem classification_errors:
  assumes "info heap p = Some i"
      and "info heap (truediv fs (msg_topic msg @ ''/retained'')) = Some j"
      and "reachable_cache heap (cache w)"
  shows "(is_dir_flag i \<longrightarrow> handler heap p = Some (Inl (IsADirectoryError (ArgInfo i))))
       \<and> (\<not> exists_flag i \<longrightarrow> handler heap p = Some (Inl (FileNotFoundError (ArgInfo i))))
       \<and> (is_file_flag i \<longrightarrow> (\<exists>h. handler heap p = Some (Inr h)))
       \<and> (is_file_flag j \<longrightarrow>
            (\<exists>w'. retain heap fs msg w
                    = Some (Inl (NotADirectoryError
                                   (ArgPath (truediv fs (msg_topic msg @ ''/retained'')))), w')
                  \<and> outbox w' = outbox w))
       \<and> (\<not> exists_flag j \<longrightarrow>
            (\<exists>w'. retain heap fs msg w
                    = Some (Inl (FileNotFoundError
                                   (ArgPath (truediv fs (msg_topic msg @ ''/retained'')))), w')
                  \<and> outbox w' = outbox w))
       \<and> (is_dir_flag j \<longrightarrow>
            (\<exists>w'. retain heap fs msg w = Some (Inr (), w')
                  \<and> outbox w' = outbox w @
                       [\<lparr>pub_topic = msg_topic msg @ ''/retained'', pub_payload = msg_payload msg,
                         pub_retain = True, pub_qos = 1\<rparr>]))
       \<and> (is_dir_flag i \<or> is_file_flag i \<or> \<not> exists_flag i)
       \<and> (is_dir_flag j \<or> is_file_flag j \<or> \<not> exists_flag j)"
proof -
  let ?t = "truediv fs (msg_topic msg @ ''/retained'')"
  have h: "(is_dir_flag i \<longrightarrow> handler heap p = Some (Inl (IsADirectoryError (ArgInfo i))))
       \<and> (\<not> exists_flag i \<longrightarrow> handler heap p = Some (Inl (FileNotFoundError (ArgInfo i))))
       \<and> (is_file_flag i \<longrightarrow> (\<exists>h. handler heap p = Some (Inr h)))"
    using assms(1) info_flags[OF assms(1)] info_fields[OF assms(1)]
    by (auto simp: handler_def info_handler_def split: option.splits)
  have nd: "\<not> is_dir_flag j \<Longrightarrow>
      \<exists>w'. retain heap fs msg w
              = Some (Inl (if exists_flag j then NotADirectoryError (ArgPath ?t)
                           else FileNotFoundError (ArgPath ?t)), w')
            \<and> outbox w' = outbox w"
  proof -
    assume n: "\<not> is_dir_flag j"
    from guard_not_dir[OF assms(3) assms(2) n] obtain c1 c2 where
      g: "check_dir heap (cache w) ?t = Some (False, c1)"
         "check_exists heap c1 ?t = Some (exists_flag j, c2)" by blast
    then show ?thesis by (simp add: retain_def Let_def)
  qed
  have d: "is_dir_flag j \<Longrightarrow>
      \<exists>w'. retain heap fs msg w = Some (Inr (), w')
            \<and> outbox w' = outbox w @
                 [\<lparr>pub_topic = msg_topic msg @ ''/retained'', pub_payload = msg_payload msg,
                   pub_retain = True, pub_qos = 1\<rparr>]"
  proof -
    assume "is_dir_flag j"
    with assms(2) have "is_dir heap ?t = Some True" by (simp add: is_dir_def)
    from guard_dir[OF assms(3) this] obtain c1 where
      "check_dir heap (cache w) ?t = Some (True, c1)" by blast
    then show ?thesis by (simp add: retain_def Let_def publish_def)
  qed
  have leaf: "is_file_flag j \<Longrightarrow>
      \<exists>w'. retain heap fs msg w = Some (Inl (NotADirectoryError (ArgPath ?t)), w')
            \<and> outbox w' = outbox w"
  proof -
    assume "is_file_flag j"
    with info_flags(2)[OF assms(2)] have "\<not> is_dir_flag j" and "exists_flag j" by simp_all
    from nd[OF this(1)] this(2) show ?thesis by simp
  qed
  have missing: "\<not> exists_flag j \<Longrightarrow>
      \<exists>w'. retain heap fs msg w = Some (Inl (FileNotFoundError (ArgPath ?t)), w')
            \<and> outbox w' = outbox w"
  proof -
    assume e: "\<not> exists_flag j"
    with info_flags(1)[OF assms(2)] have "\<not> is_dir_flag j" by blast
    from nd[OF this] e show ?thesis by simp
  qed
  have ki: "is_dir_flag i \<or> is_file_flag i \<or> \<not> exists_flag i"
    using info_flags(2)[OF assms(1)] by blast
  have kj: "is_dir_flag j \<or> is_file_flag j \<or> \<not> exists_flag j"
    using info_flags(2)[OF assms(2)] by blast
  from h leaf missing d ki kj show ?thesis
    by (intro conjI impI) blast+
qed


theorem classification_errors_witness:
  "info (heap_of (Dict [(''t'', Dict [(''retained'', Handler (0::nat))])]))
        \<lparr>filetree = 0, segments = [''t'']\<rparr>
     = Some (mk_info [''t''] (Some (Dict [(''retained'', Handler 0)])))
   \<and> is_dir_flag (mk_info [''t''] (Some (Dict [(''retained'', Handler (0::nat))])))
   \<and> handler (heap_of (Dict [(''t'', Dict [(''retained'', Handler (0::nat))])]))
        \<lparr>filetree = 0, segments = [''t'']\<rparr>
     = Some (Inl (IsADirectoryError
                   (ArgInfo (mk_info [''t''] (Some (Dict [(''retained'', Handler 0)]))))))
   \<and> info (heap_of (Dict [(''t'', Dict [(''retained'', Handler (0::nat))])]))
        (truediv fs_root (msg_topic \<lparr>msg_topic = ''t'', msg_payload = ''x''\<rparr> @ ''/retained''))
     = Some (mk_info [''t'', ''retained''] (Some (Handler 0)))
   \<and> is_file_flag (mk_info [''t'', ''retained''] (Some (Handler (0::nat))))
   \<and> reachable_cache (heap_of (Dict [(''t'', Dict [(''retained'', Handler (0::nat))])]))
        (cache world_init)
   \<and> (\<exists>w'. retain (heap_of (Dict [(''t'', Dict [(''retained'', Handler (0::nat))])])) fs_root
               \<lparr>msg_topic = ''t'', msg_payload = ''x''\<rparr> world_init
            = Some (Inl (NotADirectoryError (ArgPath (truediv fs_root
                 (msg_topic \<lparr>msg_topic = ''t'', msg_payload = ''x''\<rparr> @ ''/retained'')))), w')
          \<and> outbox w' = outbox world_init)"
proof -
  let ?H = "heap_of (Dict [(''t'', Dict [(''retained'', Handler (0::nat))])])"
  let ?m = "\<lparr>msg_topic = ''t'', msg_payload = ''x''\<rparr>"
  have a: "info ?H \<lparr>filetree = 0, segments = [''t'']\<rparr>
             = Some (mk_info [''t''] (Some (Dict [(''retained'', Handler 0)])))"
    by code_simp
  have b: "info ?H (truediv fs_root (msg_topic ?m @ ''/retained''))
             = Some (mk_info [''t'', ''retained''] (Some (Handler 0)))"
    by code_simp
  have r: "reachable_cache ?H (cache world_init)"
    by (simp add: world_init_def reachable_cache.initial)
  have fa: "is_dir_flag (mk_info [''t''] (Some (Dict [(''retained'', Handler (0::nat))])))"
    and fb: "is_file_flag (mk_info [''t'', ''retained''] (Some (Handler (0::nat))))"
    by (simp_all add: mk_info_def)
  from classification_errors[OF a b r] a b r fa fb show ?thesis
    by blast
qed

section \<open>The power aggregator\<close>

text \<open>
  Claim C7. An invocation of \<open>handle_power\<close> sets the state of the invoking device to
  \<open>payload == "ON"\<close>; when the target topic classifies as a Directory it then publishes,
  retained, \<open>ON\<close> if every tracked device is true and \<open>OFF\<close> otherwise. With the two
  devices of \<open>Onlyfans\<close>, both false at start: the first set to \<open>ON\<close> publishes \<open>OFF\<close>, then
  the second set to \<open>ON\<close> publishes \<open>ON\<close>, then the second set to \<open>OFF\<close> publishes \<open>OFF\<close>.
\<close>

theorem power_aggregator:
  assumes "reachable_cache heap (cache w)"
      and "is_dir heap (truediv fs (power_topic self)) = Some True"
  shows "(\<exists>w'. handle_power heap self fs device status w
            = Some (Inr (),
                    self\<lparr>power_state := setitem (power_state self) device (status = ''ON'')\<rparr>,
                    w')
          \<and> reachable_cache heap (cache w')
          \<and> outbox w' = outbox w @
               [\<lparr>pub_topic = power_topic self,
                 pub_payload =
                   (if (\<forall>b \<in> set (dict_values
                                     (setitem (power_state self) device (status = ''ON''))). b)
                    then ''ON'' else ''OFF''),
                 pub_retain = True, pub_qos = 1\<rparr>])
       \<and> map_of (setitem (power_state self) device (status = ''ON''))
           = (map_of (power_state self))(device \<mapsto> (status = ''ON''))
       \<and> power_state (PowerStatusBehaviour_init ONLYFANS Onlyfans_members)
           = [(Onlyfans_PLUG_2, False), (Onlyfans_PLUG_3, False)]
       \<and> do {
           (r1, s1, w1) \<leftarrow> handle_power (heap_of handler_tree_excerpt)
              (PowerStatusBehaviour_init ONLYFANS Onlyfans_members) fs_root
              Onlyfans_PLUG_2 ''ON'' world_init;
           (r2, s2, w2) \<leftarrow> handle_power (heap_of handler_tree_excerpt) s1 fs_root
              Onlyfans_PLUG_3 ''ON'' w1;
           (r3, s3, w3) \<leftarrow> handle_power (heap_of handler_tree_excerpt) s2 fs_root
              Onlyfans_PLUG_3 ''OFF'' w2;
           Some ([r1, r2, r3], map pub_payload (outbox w1), map pub_payload (outbox w2),
                 map pub_payload (outbox w3))
         } = Some ([Inr (), Inr (), Inr ()], [''OFF''], [''OFF'', ''ON''],
                   [''OFF'', ''ON'', ''OFF''])"
proof -
  let ?t = "truediv fs (power_topic self)"
  from guard_dir[OF assms] obtain c1 where
    g: "check_dir heap (cache w) ?t = Some (True, c1)" "reachable_cache heap c1" by blast
  have general: "\<exists>w'. handle_power heap self fs device status w
            = Some (Inr (),
                    self\<lparr>power_state := setitem (power_state self) device (status = ''ON'')\<rparr>,
                    w')
          \<and> reachable_cache heap (cache w')
          \<and> outbox w' = outbox w @
               [\<lparr>pub_topic = power_topic self,
                 pub_payload =
                   (if (\<forall>b \<in> set (dict_values
                                     (setitem (power_state self) device (status = ''ON''))). b)
                    then ''ON'' else ''OFF''),
                 pub_retain = True, pub_qos = 1\<rparr>]"
    using g by (simp add: handle_power_def Let_def publish_def list_all_iff)
  have init: "power_state (PowerStatusBehaviour_init ONLYFANS Onlyfans_members)
           = [(Onlyfans_PLUG_2, False), (Onlyfans_PLUG_3, False)]"
    by code_simp
  have scenario: "do {
           (r1, s1, w1) \<leftarrow> handle_power (heap_of handler_tree_excerpt)
              (PowerStatusBehaviour_init ONLYFANS Onlyfans_members) fs_root
              Onlyfans_PLUG_2 ''ON'' world_init;
           (r2, s2, w2) \<leftarrow> handle_power (heap_of handler_tree_excerpt) s1 fs_root
              Onlyfans_PLUG_3 ''ON'' w1;
           (r3, s3, w3) \<leftarrow> handle_power (heap_of handler_tree_excerpt) s2 fs_root
              Onlyfans_PLUG_3 ''OFF'' w2;
           Some ([r1, r2, r3], map pub_payload (outbox w1), map pub_payload (outbox w2),
                 map pub_payload (outbox w3))
         } = Some ([Inr () :: Onlyfans exn + unit, Inr (), Inr ()], [''OFF''], [''OFF'', ''ON''],
                   [''OFF'', ''ON'', ''OFF''])"
    by code_simp
  from general init scenario map_of_setitem[of "power_state self" device "status = ''ON''"]
  show ?thesis by blast
qed

theorem power_aggregator_witness:
  "reachable_cache (heap_of handler_tree_excerpt) (cache world_init)
   \<and> is_dir (heap_of handler_tree_excerpt)
        (truediv fs_root (power_topic (PowerStatusBehaviour_init ONLYFANS Onlyfans_members)))
       = Some True
   \<and> (\<exists>w'. handle_power (heap_of handler_tree_excerpt)
              (PowerStatusBehaviour_init ONLYFANS Onlyfans_members) fs_root
              Onlyfans_PLUG_2 ''ON'' world_init
            = Some (Inr (),
                 (PowerStatusBehaviour_init ONLYFANS Onlyfans_members)
                   \<lparr>power_state := [(Onlyfans_PLUG_2, True), (Onlyfans_PLUG_3, False)]\<rparr>, w')
          \<and> outbox w' = [\<lparr>pub_topic = ''stat/onlyfans/POWER'', pub_payload = ''OFF'',
                            pub_retain = True, pub_qos = 1\<rparr>])"
proof -
  have r: "reachable_cache (heap_of handler_tree_excerpt) (cache world_init)"
    by (simp add: world_init_def reachable_cache.initial)
  have d: "is_dir (heap_of handler_tree_excerpt)
        (truediv fs_root (power_topic (PowerStatusBehaviour_init ONLYFANS Onlyfans_members)))
       = Some True"
    by code_simp
  have s: "setitem (power_state (PowerStatusBehaviour_init ONLYFANS Onlyfans_members))
             Onlyfans_PLUG_2 (''ON'' = ''ON'')
           = [(Onlyfans_PLUG_2, True), (Onlyfans_PLUG_3, False)]"
    by code_simp
  have t: "power_topic (PowerStatusBehaviour_init ONLYFANS Onlyfans_members)
             = ''stat/onlyfans/POWER''"
    by code_simp
  have o: "outbox world_init = []"
    by (simp add: world_init_def)
  from power_aggregator[OF r d, of Onlyfans_PLUG_2 "''ON''"] obtain w' where
    "handle_power (heap_of handler_tree_excerpt)
        (PowerStatusBehaviour_init ONLYFANS Onlyfans_members) fs_root
        Onlyfans_PLUG_2 ''ON'' world_init
      = Some (Inr (),
           (PowerStatusBehaviour_init ONLYFANS Onlyfans_members)
             \<lparr>power_state := setitem (power_state
                 (PowerStatusBehaviour_init ONLYFANS Onlyfans_members))
                 Onlyfans_PLUG_2 (''ON'' = ''ON'')\<rparr>, w')"
    and "outbox w' = outbox world_init @
           [\<lparr>pub_topic = power_topic (PowerStatusBehaviour_init ONLYFANS Onlyfans_members),
             pub_payload =
               (if (\<forall>b \<in> set (dict_values (setitem (power_state
                      (PowerStatusBehaviour_init ONLYFANS Onlyfans_members))
                      Onlyfans_PLUG_2 (''ON'' = ''ON''))). b)
                then ''ON'' else ''OFF''),
             pub_retain = True, pub_qos = 1\<rparr>]"
    by blast
  then have "handle_power (heap_of handler_tree_excerpt)
        (PowerStatusBehaviour_init ONLYFANS Onlyfans_members) fs_root
        Onlyfans_PLUG_2 ''ON'' world_init
      = Some (Inr (),
           (PowerStatusBehaviour_init ONLYFANS Onlyfans_members)
             \<lparr>power_state := [(Onlyfans_PLUG_2, True), (Onlyfans_PLUG_3, False)]\<rparr>, w')
     \<and> outbox w' = [\<lparr>pub_topic = ''stat/onlyfans/POWER'', pub_payload = ''OFF'',
                       pub_retain = True, pub_qos = 1\<rparr>]"
    unfolding s t o by (simp add: dict_values_def)
  with r d show ?thesis by blast
qed


section \<open>The value-agreement aggregator\<close>

lemma groupby_Nil: "groupby xs = [] \<longleftrightarrow> xs = []"
  by (cases xs) simp_all

lemma all_equal_iff: "all_equal xs \<longleftrightarrow> (\<forall>x \<in> set xs. \<forall>y \<in> set xs. x = y)"
proof (cases xs)
  case Nil
  then show ?thesis by (simp add: all_equal_def)
next
  case (Cons a rest)
  have "all_equal xs \<longleftrightarrow> groupby (dropWhile (\<lambda>y. y = a) rest) = []"
    using Cons by (simp add: all_equal_def split: list.splits)
  also have "\<dots> \<longleftrightarrow> (\<forall>y \<in> set rest. y = a)"
    by (simp add: groupby_Nil dropWhile_eq_Nil_conv)
  also have "\<dots> \<longleftrightarrow> (\<forall>x \<in> set xs. \<forall>y \<in> set xs. x = y)"
    unfolding Cons by (metis list.set_intros(1) list.set_intros(2) set_ConsD)
  finally show ?thesis .
qed

text \<open>
  Claim C8. An invocation of \<open>handle_timer\<close> parses an integer from the payload and stores
  it for the invoking device; when the target topic classifies as a Directory it then
  publishes, retained, that value if the values of all tracked devices are equal, and the
  sentinel \<open>-\<close> otherwise. With the two devices of \<open>Onlyfans\<close>: 5 for the first, then 5 for
  the second publishes \<open>5\<close>; then 6 for the second publishes the sentinel.
\<close>

theorem timer_aggregator:
  assumes "reachable_cache (heap :: 'h heap) (cache w)"
      and "is_dir heap (truediv fs (timer_topic self)) = Some True"
      and "py_int isspace_bytes status = (Inr hours :: 'h exn + int)"
  shows "(\<exists>w'. handle_timer heap self fs device status w
            = Some (Inr (),
                    self\<lparr>timer_state := setitem (timer_state self) device hours\<rparr>, w')
          \<and> reachable_cache heap (cache w')
          \<and> outbox w' = outbox w @
               [\<lparr>pub_topic = timer_topic self,
                 pub_payload =
                   (if (\<forall>x \<in> set (dict_values (setitem (timer_state self) device hours)).
                        \<forall>y \<in> set (dict_values (setitem (timer_state self) device hours)).
                          x = y)
                    then py_str hours else ''-''),
                 pub_retain = True, pub_qos = 1\<rparr>])
       \<and> map_of (setitem (timer_state self) device hours)
           = (map_of (timer_state self))(device \<mapsto> hours)
       \<and> do {
           (r1, s1, w1) \<leftarrow> handle_timer (heap_of handler_tree_excerpt)
              (TimerStatusBehaviour_init ONLYFANS 1 Onlyfans_members) fs_root
              Onlyfans_PLUG_2 ''5'' world_init;
           (r2, s2, w2) \<leftarrow> handle_timer (heap_of handler_tree_excerpt) s1 fs_root
              Onlyfans_PLUG_3 ''5'' w1;
           (r3, s3, w3) \<leftarrow> handle_timer (heap_of handler_tree_excerpt) s2 fs_root
              Onlyfans_PLUG_3 ''6'' w2;
           Some ([r1, r2, r3], map pub_payload (outbox w2), map pub_payload (outbox w3))
         } = Some ([Inr (), Inr (), Inr ()], [''-'', ''5''], [''-'', ''5'', ''-''])"
proof -
  let ?t = "truediv fs (timer_topic self)"
  from guard_dir[OF assms(1,2)] obtain c1 where
    g: "check_dir heap (cache w) ?t = Some (True, c1)" "reachable_cache heap c1" by blast
  have general: "\<exists>w'. handle_timer heap self fs device status w
            = Some (Inr (),
                    self\<lparr>timer_state := setitem (timer_state self) device hours\<rparr>, w')
          \<and> reachable_cache heap (cache w')
          \<and> outbox w' = outbox w @
               [\<lparr>pub_topic = timer_topic self,
                 pub_payload =
                   (if (\<forall>x \<in> set (dict_values (setitem (timer_state self) device hours)).
                        \<forall>y \<in> set (dict_values (setitem (timer_state self) device hours)).
                          x = y)
                    then py_str hours else ''-''),
                 pub_retain = True, pub_qos = 1\<rparr>]"
    using g assms(3) by (simp add: handle_timer_def Let_def publish_def all_equal_iff)
  have scenario: "do {
           (r1, s1, w1) \<leftarrow> handle_timer (heap_of handler_tree_excerpt)
              (TimerStatusBehaviour_init ONLYFANS 1 Onlyfans_members) fs_root
              Onlyfans_PLUG_2 ''5'' world_init;
           (r2, s2, w2) \<leftarrow> handle_timer (heap_of handler_tree_excerpt) s1 fs_root
              Onlyfans_PLUG_3 ''5'' w1;
           (r3, s3, w3) \<leftarrow> handle_timer (heap_of handler_tree_excerpt) s2 fs_root
              Onlyfans_PLUG_3 ''6'' w2;
           Some ([r1, r2, r3], map pub_payload (outbox w2), map pub_payload (outbox w3))
         } = Some ([Inr () :: Onlyfans exn + unit, Inr (), Inr ()], [''-'', ''5''],
                   [''-'', ''5'', ''-''])"
    by code_simp
  from general scenario map_of_setitem[of "timer_state self" device hours]
  show ?thesis by blast
qed

theorem timer_aggregator_witness:
  "reachable_cache (heap_of handler_tree_excerpt) (cache world_init)
   \<and> is_dir (heap_of handler_tree_excerpt)
        (truediv fs_root (timer_topic (TimerStatusBehaviour_init ONLYFANS 1 Onlyfans_members)))
       = Some True
   \<and> py_int isspace_bytes ''1'' = (Inr 1 :: Onlyfans exn + int)
   \<and> (\<exists>w'. handle_timer (heap_of handler_tree_excerpt)
              (TimerStatusBehaviour_init ONLYFANS 1 Onlyfans_members) fs_root
              Onlyfans_PLUG_2 ''1'' world_init
            = Some (Inr (),
                 (TimerStatusBehaviour_init ONLYFANS 1 Onlyfans_members)
                   \<lparr>timer_state := [(Onlyfans_PLUG_2, 1), (Onlyfans_PLUG_3, 1)]\<rparr>, w')
          \<and> outbox w' = [\<lparr>pub_topic = ''stat/onlyfans/TIMER1/unmarshalled'',
                            pub_payload = ''1'', pub_retain = True, pub_qos = 1\<rparr>])"
proof -
  have r: "reachable_cache (heap_of handler_tree_excerpt) (cache world_init)"
    by (simp add: world_init_def reachable_cache.initial)
  have d: "is_dir (heap_of handler_tree_excerpt)
        (truediv fs_root (timer_topic (TimerStatusBehaviour_init ONLYFANS 1 Onlyfans_members)))
       = Some True"
    by code_simp
  have p: "py_int isspace_bytes ''1'' = (Inr 1 :: Onlyfans exn + int)"
    by code_simp
  have s: "setitem (timer_state (TimerStatusBehaviour_init ONLYFANS 1 Onlyfans_members))
             Onlyfans_PLUG_2 1
           = [(Onlyfans_PLUG_2, 1), (Onlyfans_PLUG_3, 1)]"
    by code_simp
  have t: "timer_topic (TimerStatusBehaviour_init ONLYFANS 1 Onlyfans_members)
             = ''stat/onlyfans/TIMER1/unmarshalled''"
    by code_simp
  have o: "outbox world_init = []"
    by (simp add: world_init_def)
  have y: "py_str 1 = ''1''"
    by code_simp
  from timer_aggregator[OF r d p, of Onlyfans_PLUG_2] obtain w' where
    "handle_timer (heap_of handler_tree_excerpt)
        (TimerStatusBehaviour_init ONLYFANS 1 Onlyfans_members) fs_root
        Onlyfans_PLUG_2 ''1'' world_init
      = Some (Inr (),
           (TimerStatusBehaviour_init ONLYFANS 1 Onlyfans_members)
             \<lparr>timer_state := setitem (timer_state
                 (TimerStatusBehaviour_init ONLYFANS 1 Onlyfans_members))
                 Onlyfans_PLUG_2 1\<rparr>, w')"
    and "outbox w' = outbox world_init @
           [\<lparr>pub_topic = timer_topic (TimerStatusBehaviour_init ONLYFANS 1 Onlyfans_members),
             pub_payload =
               (if (\<forall>x \<in> set (dict_values (setitem (timer_state
                      (TimerStatusBehaviour_init ONLYFANS 1 Onlyfans_members))
                      Onlyfans_PLUG_2 1)).
                    \<forall>y \<in> set (dict_values (setitem (timer_state
                      (TimerStatusBehaviour_init ONLYFANS 1 Onlyfans_members))
                      Onlyfans_PLUG_2 1)). x = y)
                then py_str 1 else ''-''),
             pub_retain = True, pub_qos = 1\<rparr>]"
    by blast
  then have "handle_timer (heap_of handler_tree_excerpt)
        (TimerStatusBehaviour_init ONLYFANS 1 Onlyfans_members) fs_root
        Onlyfans_PLUG_2 ''1'' world_init
      = Some (Inr (),
           (TimerStatusBehaviour_init ONLYFANS 1 Onlyfans_members)
             \<lparr>timer_state := [(Onlyfans_PLUG_2, 1), (Onlyfans_PLUG_3, 1)]\<rparr>, w')
     \<and> outbox w' = [\<lparr>pub_topic = ''stat/onlyfans/TIMER1/unmarshalled'', pub_payload = ''1'',
                       pub_retain = True, pub_qos = 1\<rparr>]"
    unfolding s t o y by (simp add: dict_values_def)
  with r d p show ?thesis by blast
qed

section \<open>State of the aggregators after a classification error\<close>

text \<open>
  Claim C10. In both behaviours the write to the state table comes before the target
  topic is classified: when the target is Missing or a Leaf the invocation raises
  \<open>FileNotFoundError\<close> or \<open>NotADirectoryError\<close>, publishes nothing, and the behaviour it
  leaves holds the value just written for the device.
\<close>

theorem aggregator_state_kept:
  assumes "reachable_cache (heap :: 'h heap) (cache w)"
  shows "(info heap (truediv fs (power_topic ps)) = Some j \<and> \<not> is_dir_flag j \<longrightarrow>
            (\<exists>w'. handle_power heap ps fs device status w
                    = Some (Inl (if exists_flag j
                                 then NotADirectoryError (ArgPath (truediv fs (power_topic ps)))
                                 else FileNotFoundError (ArgPath (truediv fs (power_topic ps)))),
                            ps\<lparr>power_state :=
                                  setitem (power_state ps) device (status = ''ON'')\<rparr>, w')
                  \<and> outbox w' = outbox w)
            \<and> map_of (setitem (power_state ps) device (status = ''ON'')) device
                = Some (status = ''ON''))
       \<and> (info heap (truediv fs (timer_topic ts)) = Some j' \<and> \<not> is_dir_flag j'
            \<and> py_int isspace_bytes status' = (Inr hours :: 'h exn + int) \<longrightarrow>
            (\<exists>w'. handle_timer heap ts fs device' status' w
                    = Some (Inl (if exists_flag j'
                                 then NotADirectoryError (ArgPath (truediv fs (timer_topic ts)))
                                 else FileNotFoundError (ArgPath (truediv fs (timer_topic ts)))),
                            ts\<lparr>timer_state := setitem (timer_state ts) device' hours\<rparr>, w')
                  \<and> outbox w' = outbox w)
            \<and> map_of (setitem (timer_state ts) device' hours) device' = Some hours)"
proof (intro conjI impI)
  assume a: "info heap (truediv fs (power_topic ps)) = Some j \<and> \<not> is_dir_flag j"
  from guard_not_dir[OF assms, of "truediv fs (power_topic ps)" j] a obtain c1 c2 where
    "check_dir heap (cache w) (truediv fs (power_topic ps)) = Some (False, c1)"
    "check_exists heap c1 (truediv fs (power_topic ps)) = Some (exists_flag j, c2)"
    by blast
  then show "\<exists>w'. handle_power heap ps fs device status w
                    = Some (Inl (if exists_flag j
                                 then NotADirectoryError (ArgPath (truediv fs (power_topic ps)))
                                 else FileNotFoundError (ArgPath (truediv fs (power_topic ps)))),
                            ps\<lparr>power_state :=
                                  setitem (power_state ps) device (status = ''ON'')\<rparr>, w')
                  \<and> outbox w' = outbox w"
    by (simp add: handle_power_def Let_def)
next
  show "map_of (setitem (power_state ps) device (status = ''ON'')) device
          = Some (status = ''ON'')"
    by (simp add: map_of_setitem)
next
  assume a: "info heap (truediv fs (timer_topic ts)) = Some j' \<and> \<not> is_dir_flag j'
            \<and> py_int isspace_bytes status' = (Inr hours :: 'h exn + int)"
  from guard_not_dir[OF assms, of "truediv fs (timer_topic ts)" j'] a obtain c1 c2 where
    "check_dir heap (cache w) (truediv fs (timer_topic ts)) = Some (False, c1)"
    "check_exists heap c1 (truediv fs (timer_topic ts)) = Some (exists_flag j', c2)"
    by blast
  with a show "\<exists>w'. handle_timer heap ts fs device' status' w
                    = Some (Inl (if exists_flag j'
                                 then NotADirectoryError (ArgPath (truediv fs (timer_topic ts)))
                                 else FileNotFoundError (ArgPath (truediv fs (timer_topic ts)))),
                            ts\<lparr>timer_state := setitem (timer_state ts) device' hours\<rparr>, w')
                  \<and> outbox w' = outbox w"
    by (simp add: handle_timer_def Let_def)
next
  show "map_of (setitem (timer_state ts) device' hours) device' = Some hours"
    by (simp add: map_of_setitem)
qed


theorem aggregator_state_kept_witness:
  "reachable_cache
      (heap_of (Dict [(''stat'', Dict [(''onlyfans'',
                 Dict [(''POWER'', Handler Onlyfans_PLUG_2)])])]))
      (cache world_init)
   \<and> info (heap_of (Dict [(''stat'', Dict [(''onlyfans'',
                 Dict [(''POWER'', Handler Onlyfans_PLUG_2)])])]))
        (truediv fs_root (power_topic (PowerStatusBehaviour_init ONLYFANS Onlyfans_members)))
       = Some (mk_info [''stat'', ''onlyfans'', ''POWER''] (Some (Handler Onlyfans_PLUG_2)))
   \<and> \<not> is_dir_flag (mk_info [''stat'', ''onlyfans'', ''POWER'']
                        (Some (Handler Onlyfans_PLUG_2)))
   \<and> (\<exists>w'. handle_power
              (heap_of (Dict [(''stat'', Dict [(''onlyfans'',
                 Dict [(''POWER'', Handler Onlyfans_PLUG_2)])])]))
              (PowerStatusBehaviour_init ONLYFANS Onlyfans_members) fs_root
              Onlyfans_PLUG_3 ''ON'' world_init
            = Some (Inl (NotADirectoryError (ArgPath (truediv fs_root
                      (power_topic (PowerStatusBehaviour_init ONLYFANS Onlyfans_members))))),
                 (PowerStatusBehaviour_init ONLYFANS Onlyfans_members)
                   \<lparr>power_state := [(Onlyfans_PLUG_2, False), (Onlyfans_PLUG_3, True)]\<rparr>, w')
          \<and> outbox w' = outbox world_init)
   \<and> info (heap_of (Dict [(''stat'', Dict [(''onlyfans'',
                 Dict [(''POWER'', Handler Onlyfans_PLUG_2)])])]))
        (truediv fs_root (timer_topic (TimerStatusBehaviour_init ONLYFANS 1 Onlyfans_members)))
       = Some (mk_info [''stat'', ''onlyfans'', ''TIMER1'', ''unmarshalled''] None)
   \<and> \<not> is_dir_flag (mk_info [''stat'', ''onlyfans'', ''TIMER1'', ''unmarshalled''] None
                        :: Onlyfans MQTTPathInfo)
   \<and> py_int isspace_bytes ''7'' = (Inr 7 :: Onlyfans exn + int)
   \<and> (\<exists>w'. handle_timer
              (heap_of (Dict [(''stat'', Dict [(''onlyfans'',
                 Dict [(''POWER'', Handler Onlyfans_PLUG_2)])])]))
              (TimerStatusBehaviour_init ONLYFANS 1 Onlyfans_members) fs_root
              Onlyfans_PLUG_3 ''7'' world_init
            = Some (Inl (FileNotFoundError (ArgPath (truediv fs_root
                      (timer_topic (TimerStatusBehaviour_init ONLYFANS 1 Onlyfans_members))))),
                 (TimerStatusBehaviour_init ONLYFANS 1 Onlyfans_members)
                   \<lparr>timer_state := [(Onlyfans_PLUG_2, 0), (Onlyfans_PLUG_3, 7)]\<rparr>, w')
          \<and> outbox w' = outbox world_init)"
proof -
  let ?H = "heap_of (Dict [(''stat'', Dict [(''onlyfans'',
                 Dict [(''POWER'', Handler Onlyfans_PLUG_2)])])])"
  let ?ps = "PowerStatusBehaviour_init ONLYFANS Onlyfans_members :: Onlyfans PowerStatusBehaviour"
  let ?ts = "TimerStatusBehaviour_init ONLYFANS 1 Onlyfans_members :: Onlyfans TimerStatusBehaviour"
  let ?j = "mk_info [''stat'', ''onlyfans'', ''POWER''] (Some (Handler Onlyfans_PLUG_2))"
  let ?j' = "mk_info [''stat'', ''onlyfans'', ''TIMER1'', ''unmarshalled''] None
               :: Onlyfans MQTTPathInfo"
  have r: "reachable_cache ?H (cache world_init)"
    by (simp add: world_init_def reachable_cache.initial)
  have a: "info ?H (truediv fs_root (power_topic ?ps)) = Some ?j"
    by code_simp
  have b: "info ?H (truediv fs_root (timer_topic ?ts)) = Some ?j'"
    by code_simp
  have fa: "\<not> is_dir_flag ?j" "exists_flag ?j"
    and fb: "\<not> is_dir_flag ?j'" "\<not> exists_flag ?j'"
    by (simp_all add: mk_info_def)
  have p: "py_int isspace_bytes ''7'' = (Inr 7 :: Onlyfans exn + int)"
    by code_simp
  have s1: "setitem (power_state ?ps) Onlyfans_PLUG_3 (''ON'' = ''ON'')
              = [(Onlyfans_PLUG_2, False), (Onlyfans_PLUG_3, True)]"
    by code_simp
  have s2: "setitem (timer_state ?ts) Onlyfans_PLUG_3 7
              = [(Onlyfans_PLUG_2, 0), (Onlyfans_PLUG_3, 7)]"
    by code_simp
  from aggregator_state_kept[OF r, of fs_root ?ps ?j Onlyfans_PLUG_3 "''ON''"
         ?ts ?j' "''7''" 7 Onlyfans_PLUG_3]
       a b fa fb p
  have "(\<exists>w'. handle_power ?H ?ps fs_root Onlyfans_PLUG_3 ''ON'' world_init
            = Some (Inl (NotADirectoryError (ArgPath (truediv fs_root (power_topic ?ps)))),
                 ?ps\<lparr>power_state := setitem (power_state ?ps) Onlyfans_PLUG_3 (''ON'' = ''ON'')\<rparr>,
                 w')
          \<and> outbox w' = outbox world_init)
     \<and> (\<exists>w'. handle_timer ?H ?ts fs_root Onlyfans_PLUG_3 ''7'' world_init
            = Some (Inl (FileNotFoundError (ArgPath (truediv fs_root (timer_topic ?ts)))),
                 ?ts\<lparr>timer_state := setitem (timer_state ?ts) Onlyfans_PLUG_3 7\<rparr>, w')
          \<and> outbox w' = outbox world_init)"
    by simp
  with r a b fa fb p show ?thesis
    unfolding s1 s2 by blast
qed


section \<open>Unmarshalling a timer\<close>

lemma unmarshal_publishes:
  assumes "reachable_cache (heap :: 'h heap) (cache w)"
      and "is_dir heap (truediv fs (''stat/'' @ topic_value device_topic @ ''/TIMER''
                          @ py_str timer_index @ ''/unmarshalled'')) = Some True"
      and "loads (msg_payload msg) = Inr (PyDict doc)"
      and "map_of doc (''Timer'' @ py_str timer_index) = Some (PyDict timer)"
      and "map_of timer ''Time'' = Some (PyStr time)"
      and "py_split (CHR '':'') time = hours_text # minutes_text # others"
      and "py_int isspace_str hours_text = (Inr H :: 'h exn + int)"
      and "py_int isspace_str minutes_text = (Inr M :: 'h exn + int)"
  shows "\<exists>w'. time_unmarshalled loads heap timer_index device_topic fs msg w = Some (Inr (), w')
          \<and> reachable_cache heap (cache w')
          \<and> outbox w' = outbox w @
               [\<lparr>pub_topic = ''stat/'' @ topic_value device_topic @ ''/TIMER''
                               @ py_str timer_index @ ''/unmarshalled'',
                 pub_payload = py_str (if M < 30 then H else (H + 1) mod 24),
                 pub_retain = True, pub_qos = 1\<rparr>]"
proof -
  let ?tp = "''stat/'' @ topic_value device_topic @ ''/TIMER'' @ py_str timer_index
               @ ''/unmarshalled''"
  from guard_dir[OF assms(1,2)] obtain c1 where
    g: "check_dir heap (cache w) (truediv fs ?tp) = Some (True, c1)"
       "reachable_cache heap c1" by blast
  have i0: "py_index (hours_text # minutes_text # others) 0 = (Inr hours_text :: 'h exn + string)"
    and i1: "py_index (hours_text # minutes_text # others) 1 = (Inr minutes_text :: 'h exn + string)"
    by (simp_all add: py_index_def)
  have "unmarshal_try loads heap timer_index device_topic fs msg w
          = Some (Inr (), publish (w\<lparr>cache := c1\<rparr>) ?tp
                     (py_str (if 30 \<le> M then (H + 1) mod 24 else H)) True 1)"
    using assms(3-8) g(1) i0 i1
    by (simp add: unmarshal_try_def Let_def)
  moreover have "(if 30 \<le> M then (H + 1) mod 24 else H) = (if M < 30 then H else (H + 1) mod 24)"
    by simp
  ultimately show ?thesis
    using g(2) by (simp add: time_unmarshalled_def publish_def)
qed

text \<open>
  Claim C9. Given a payload that decodes to a document holding, for the timer index, a
  time text \<open>H:M\<close> with integer parts, the handler publishes the rounded hour, retained,
  to its target topic (which the handler requires to classify as a Directory): \<open>H\<close> when
  \<open>M < 30\<close> and \<open>(H + 1) mod 24\<close> when \<open>M \<ge> 30\<close>. For timer 1, \<open>7:35\<close> gives 8 and \<open>23:45\<close>
  gives 0. The decoder \<open>json.loads\<close> is the parameter \<open>loads\<close>.
\<close>

theorem time_unmarshalled_rounds:
  assumes "reachable_cache (heap :: 'h heap) (cache w)"
      and "is_dir heap (truediv fs (''stat/'' @ topic_value device_topic @ ''/TIMER''
                          @ py_str timer_index @ ''/unmarshalled'')) = Some True"
      and "loads (msg_payload msg) = Inr (PyDict doc)"
      and "map_of doc (''Timer'' @ py_str timer_index) = Some (PyDict timer)"
      and "map_of timer ''Time'' = Some (PyStr time)"
      and "py_split (CHR '':'') time = hours_text # minutes_text # others"
      and "py_int isspace_str hours_text = (Inr H :: 'h exn + int)"
      and "py_int isspace_str minutes_text = (Inr M :: 'h exn + int)"
  shows "(\<exists>w'. time_unmarshalled loads heap timer_index device_topic fs msg w = Some (Inr (), w')
          \<and> outbox w' = outbox w @
               [\<lparr>pub_topic = ''stat/'' @ topic_value device_topic @ ''/TIMER''
                               @ py_str timer_index @ ''/unmarshalled'',
                 pub_payload = py_str (if M < 30 then H else (H + 1) mod 24),
                 pub_retain = True, pub_qos = 1\<rparr>])
       \<and> (\<forall>ld m. ld (msg_payload m)
                    = (Inr (PyDict [(''Timer1'', PyDict [(''Time'', PyStr ''7:35'')])])
                         :: Onlyfans exn + pyval) \<longrightarrow>
             (\<exists>w'. time_unmarshalled ld (heap_of handler_tree_excerpt) 1 PLUG_2 fs_root m
                      world_init = Some (Inr (), w')
                   \<and> outbox w' = [\<lparr>pub_topic = ''stat/tasmota-plug-2/TIMER1/unmarshalled'',
                                     pub_payload = ''8'', pub_retain = True, pub_qos = 1\<rparr>]))
       \<and> (\<forall>ld m. ld (msg_payload m)
                    = (Inr (PyDict [(''Timer1'', PyDict [(''Time'', PyStr ''23:45'')])])
                         :: Onlyfans exn + pyval) \<longrightarrow>
             (\<exists>w'. time_unmarshalled ld (heap_of handler_tree_excerpt) 1 PLUG_2 fs_root m
                      world_init = Some (Inr (), w')
                   \<and> outbox w' = [\<lparr>pub_topic = ''stat/tasmota-plug-2/TIMER1/unmarshalled'',
                                     pub_payload = ''0'', pub_retain = True, pub_qos = 1\<rparr>]))"
proof (intro conjI allI impI)
  from unmarshal_publishes[where loads=loads and msg=msg, OF assms]
  show "\<exists>w'. time_unmarshalled loads heap timer_index device_topic fs msg w = Some (Inr (), w')
          \<and> outbox w' = outbox w @
               [\<lparr>pub_topic = ''stat/'' @ topic_value device_topic @ ''/TIMER''
                               @ py_str timer_index @ ''/unmarshalled'',
                 pub_payload = py_str (if M < 30 then H else (H + 1) mod 24),
                 pub_retain = True, pub_qos = 1\<rparr>]"
    by blast
next
  have r: "reachable_cache (heap_of handler_tree_excerpt) (cache world_init)"
    by (simp add: world_init_def reachable_cache.initial)
  have d: "is_dir (heap_of handler_tree_excerpt)
             (truediv fs_root (''stat/'' @ topic_value PLUG_2 @ ''/TIMER'' @ py_str 1
                                 @ ''/unmarshalled'')) = Some True"
    by code_simp
  have k: "map_of [(''Timer1'', PyDict [(''Time'', PyStr ''7:35'')])] (''Timer'' @ py_str 1)
             = Some (PyDict [(''Time'', PyStr ''7:35'')])"
    "map_of [(''Timer1'', PyDict [(''Time'', PyStr ''23:45'')])] (''Timer'' @ py_str 1)
             = Some (PyDict [(''Time'', PyStr ''23:45'')])"
    by code_simp+
  have t: "map_of [(''Time'', PyStr ''7:35'')] ''Time'' = Some (PyStr ''7:35'')"
    "map_of [(''Time'', PyStr ''23:45'')] ''Time'' = Some (PyStr ''23:45'')"
    by simp_all
  have sp: "py_split (CHR '':'') ''7:35'' = [''7'', ''35'']"
    "py_split (CHR '':'') ''23:45'' = [''23'', ''45'']"
    by code_simp+
  have pi: "py_int isspace_str ''7'' = (Inr 7 :: Onlyfans exn + int)"
    "py_int isspace_str ''35'' = (Inr 35 :: Onlyfans exn + int)"
    "py_int isspace_str ''23'' = (Inr 23 :: Onlyfans exn + int)"
    "py_int isspace_str ''45'' = (Inr 45 :: Onlyfans exn + int)"
    by code_simp+
  have tp: "''stat/'' @ topic_value PLUG_2 @ ''/TIMER'' @ py_str 1 @ ''/unmarshalled''
              = ''stat/tasmota-plug-2/TIMER1/unmarshalled''"
    by code_simp
  have ps: "py_str (if (35::int) < 30 then 7 else (7 + 1) mod 24) = ''8''"
    "py_str (if (45::int) < 30 then 23 else (23 + 1) mod 24) = ''0''"
    by code_simp+
  have o: "outbox world_init = []"
    by (simp add: world_init_def)
  {
    fix ld :: "string \<Rightarrow> Onlyfans exn + pyval" and m :: mqtt_message
    assume l: "ld (msg_payload m)
                 = Inr (PyDict [(''Timer1'', PyDict [(''Time'', PyStr ''7:35'')])])"
    from unmarshal_publishes[where loads=ld and msg=m, OF r d l k(1) t(1) sp(1) pi(1) pi(2)]
    show "\<exists>w'. time_unmarshalled ld (heap_of handler_tree_excerpt) 1 PLUG_2 fs_root m
                      world_init = Some (Inr (), w')
                   \<and> outbox w' = [\<lparr>pub_topic = ''stat/tasmota-plug-2/TIMER1/unmarshalled'',
                                     pub_payload = ''8'', pub_retain = True, pub_qos = 1\<rparr>]"
      unfolding tp ps o by auto
  }
  {
    fix ld :: "string \<Rightarrow> Onlyfans exn + pyval" and m :: mqtt_message
    assume l: "ld (msg_payload m)
                 = Inr (PyDict [(''Timer1'', PyDict [(''Time'', PyStr ''23:45'')])])"
    from unmarshal_publishes[where loads=ld and msg=m, OF r d l k(2) t(2) sp(2) pi(3) pi(4)]
    show "\<exists>w'. time_unmarshalled ld (heap_of handler_tree_excerpt) 1 PLUG_2 fs_root m
                      world_init = Some (Inr (), w')
                   \<and> outbox w' = [\<lparr>pub_topic = ''stat/tasmota-plug-2/TIMER1/unmarshalled'',
                                     pub_payload = ''0'', pub_retain = True, pub_qos = 1\<rparr>]"
      unfolding tp ps o by auto
  }
qed


section \<open>The dispatcher and the errors of handlers\<close>

lemma is_file_True_handler:
  assumes "is_file heap c = Some True"
  shows "\<exists>h. handler heap c = Some (Inr h)" and "resolve heap c \<noteq> None"
proof -
  from assms obtain i where i: "info heap c = Some i" "is_file_flag i"
    by (auto simp: is_file_def)
  with info_fields(2)[OF i(1)] show "\<exists>h. handler heap c = Some (Inr h)"
    by (auto simp: handler_def info_handler_def split: option.splits)
  from i show "resolve heap c \<noteq> None" by (simp add: resolve_def)
qed

lemma is_file_False_handler:
  assumes "is_file heap c = Some False"
  shows "\<exists>e. handler heap c = Some (Inl e)"
proof -
  from assms obtain i where i: "info heap c = Some i" "\<not> is_file_flag i"
    by (auto simp: is_file_def)
  with info_fields(2)[OF i(1)] show ?thesis
    by (auto simp: handler_def info_handler_def split: option.splits)
qed

lemma except_clauses_caught:
  assumes "classification_error_on heap e" and "resolve heap c \<noteq> None"
  shows "except_clauses heap c e = Some (Inr ())"
  using assms
  by (auto simp: classification_error_on_def except_clauses_def report_error_def
           split: exn.splits exn_arg.splits option.splits)

lemma on_message_loop_runs:
  assumes "\<forall>c \<in> set cs. is_file heap c \<noteq> None"
      and "\<forall>c \<in> set cs. \<forall>h v. P v \<and> handler heap c = Some (Inr h) \<longrightarrow>
             (\<exists>r v'. call h fs msg v = Some (r, v') \<and> P v'
                \<and> (r = Inr () \<or> (\<exists>e. r = Inl e \<and> classification_error_on heap e)))"
      and "P w"
  shows "\<exists>w'. run_children call heap fs msg cs w = Some w' \<and> P w'
            \<and> on_message_loop call heap fs msg cs w = Some (Inr (), w')"
  using assms
proof (induction cs arbitrary: w)
  case Nil
  then show ?case by simp
next
  case (Cons c cs)
  from Cons.prems(1) obtain b where b: "is_file heap c = Some b" by auto
  have rest1: "\<forall>c \<in> set cs. is_file heap c \<noteq> None"
    using Cons.prems(1) by simp
  have rest2: "\<forall>c \<in> set cs. \<forall>h v. P v \<and> handler heap c = Some (Inr h) \<longrightarrow>
             (\<exists>r v'. call h fs msg v = Some (r, v') \<and> P v'
                \<and> (r = Inr () \<or> (\<exists>e. r = Inl e \<and> classification_error_on heap e)))"
    using Cons.prems(2) by simp
  show ?case
  proof (cases b)
    case False
    with b have bf: "is_file heap c = Some False" by simp
    from is_file_False_handler[OF bf] obtain e where "handler heap c = Some (Inl e)"
      by blast
    with bf Cons.IH[where w=w, OF rest1 rest2 Cons.prems(3)] show ?thesis
      by simp
  next
    case True
    with b have bt: "is_file heap c = Some True" by simp
    from is_file_True_handler[OF bt] obtain h f where
      h: "handler heap c = Some (Inr h)" and f: "resolve heap c = Some f"
      by auto
    from Cons.prems(2) Cons.prems(3) h have
      "\<exists>r v'. call h fs msg w = Some (r, v') \<and> P v'
          \<and> (r = Inr () \<or> (\<exists>e. r = Inl e \<and> classification_error_on heap e))"
      by simp
    then obtain r v' where
      c: "call h fs msg w = Some (r, v')" "P v'"
         "r = Inr () \<or> (\<exists>e. r = Inl e \<and> classification_error_on heap e)"
      by blast
    from Cons.IH[where w=v', OF rest1 rest2 c(2)] obtain w' where
      ih: "run_children call heap fs msg cs v' = Some w'" "P w'"
          "on_message_loop call heap fs msg cs v' = Some (Inr (), w')"
      by blast
    from c(3) show ?thesis
    proof
      assume "r = Inr ()"
      with bt h f c(1) ih show ?thesis
        by (simp add: invoke_def)
    next
      assume "\<exists>e. r = Inl e \<and> classification_error_on heap e"
      then obtain e where e: "r = Inl e" "classification_error_on heap e" by blast
      from f have "resolve heap c \<noteq> None" by simp
      from except_clauses_caught[OF e(2) this] e(1) bt h f c(1) ih show ?thesis
        by (simp add: invoke_def)
    qed
  qed
qed

text \<open>
  What \<open>on_message\<close> does catch. When the children of the topic can be enumerated and
  classified, every classification error that a handler raises with the offending
  \<open>MQTTPath\<close> as its argument is handled by one of the three \<open>except\<close> clauses: if the
  handlers raise nothing else, every child that is a Leaf has its handler invoked, each
  in the world its predecessor left, and \<open>on_message\<close> returns without an exception. \<open>P\<close>
  is any property of the world that the handlers preserve.
\<close>

lemma on_message_isolates_classification_errors:
  assumes "iterdir heap (truediv fs (msg_topic msg)) = Some (Inr cs)"
      and "\<forall>c \<in> set cs. is_file heap c \<noteq> None"
      and "\<forall>c \<in> set cs. \<forall>h v. P v \<and> handler heap c = Some (Inr h) \<longrightarrow>
             (\<exists>r v'. call h fs msg v = Some (r, v') \<and> P v'
                \<and> (r = Inr () \<or> (\<exists>e. r = Inl e \<and> classification_error_on heap e)))"
      and "P w"
  shows "\<exists>w'. run_children call heap fs msg cs w = Some w' \<and> P w'
            \<and> on_message call heap fs msg w = Some (Inr (), w')"
  using on_message_loop_runs[where P=P and call=call and w=w, OF assms(2,3,4)] assms(1)
  by (simp add: on_message_def)

text \<open>
  Claim C1. Every error of a handler should stay inside \<open>on_message\<close>, the error of a
  payload that is not an integer included. The code does not do this for \<open>handle_timer\<close>:
  its \<open>int(status)\<close> is outside any \<open>try\<close>, and \<open>on_message\<close> handles the three
  classification errors only. On the topic of the timer of plug 2 the payload \<open>abc\<close> makes
  the handler raise \<open>ValueError\<close>, and \<open>on_message\<close> ends with that exception. The sibling
  \<open>time_unmarshalled\<close> catches the same error of its own payload and returns: with the
  time text \<open>abc:35\<close> it publishes nothing and raises nothing.
\<close>

theorem on_message_value_error:
  "on_message (timer_get_handler (heap_of handler_tree_excerpt)) (heap_of handler_tree_excerpt)
      fs_root
      \<lparr>msg_topic = ''stat/tasmota-plug-2/TIMER1/unmarshalled'', msg_payload = ''abc''\<rparr>
      (TimerStatusBehaviour_init ONLYFANS 1 Onlyfans_members, world_init)
   = Some (Inl ValueError, (TimerStatusBehaviour_init ONLYFANS 1 Onlyfans_members, world_init))
   \<and> handle_timer (heap_of handler_tree_excerpt)
        (TimerStatusBehaviour_init ONLYFANS 1 Onlyfans_members) fs_root Onlyfans_PLUG_2 ''abc''
        world_init
     = Some (Inl ValueError, TimerStatusBehaviour_init ONLYFANS 1 Onlyfans_members, world_init)
   \<and> time_unmarshalled
        (\<lambda>payload. Inr (PyDict [(''Timer1'', PyDict [(''Time'', PyStr ''abc:35'')])]))
        (heap_of handler_tree_excerpt) 1 PLUG_2 fs_root
        \<lparr>msg_topic = ''stat/tasmota-plug-2/TIMER/retained'', msg_payload = ''abc:35''\<rparr>
        world_init
     = Some (Inr (), world_init)"
  by code_simp


lemma fs_cache_total:
  assumes "info heap t = Some j"
  shows "\<exists>k c'. fs_cache heap c t = Some (k, c')"
  using assms
  by (cases "cache_get c t") (auto simp: fs_cache_def exists_path_def is_dir_def)

lemma handle_timer_returns:
  assumes "py_int isspace_bytes status = (Inr hours :: 'h exn + int)"
      and "info (heap :: 'h heap) (truediv fs (timer_topic self)) = Some j"
  shows "\<exists>r w'. handle_timer heap self fs device status w
            = Some (r, self\<lparr>timer_state := setitem (timer_state self) device hours\<rparr>, w')
          \<and> (r = Inr ()
               \<or> r = Inl (FileNotFoundError (ArgPath (truediv fs (timer_topic self))))
               \<or> r = Inl (NotADirectoryError (ArgPath (truediv fs (timer_topic self)))))"
proof -
  let ?t = "truediv fs (timer_topic self)"
  from fs_cache_total[OF assms(2)] obtain k c1 where
    "fs_cache heap (cache w) ?t = Some (k, c1)" by blast
  then have cd: "check_dir heap (cache w) ?t = Some (k = DIR, c1)"
    by (simp add: check_dir_def)
  from fs_cache_total[OF assms(2)] obtain k2 c2 where
    "fs_cache heap c1 ?t = Some (k2, c2)" by blast
  then have ce: "check_exists heap c1 ?t = Some (\<not> k2 = MISSING, c2)"
    by (simp add: check_exists_def)
  from assms(1) cd ce show ?thesis
    by (auto simp: handle_timer_def Let_def)
qed

lemma on_message_isolates_classification_errors_example:
  "iterdir (heap_of (Dict [(''t'', Dict [(''first'', Handler Onlyfans_PLUG_2),
                                         (''sub'', Dict []),
                                         (''second'', Handler Onlyfans_PLUG_3)])]))
           (truediv fs_root (msg_topic \<lparr>msg_topic = ''t'', msg_payload = ''7''\<rparr>))
     = Some (Inr [truediv (truediv fs_root ''t'') ''first'',
                  truediv (truediv fs_root ''t'') ''sub'',
                  truediv (truediv fs_root ''t'') ''second''])
   \<and> map_option fst
        (timer_get_handler
           (heap_of (Dict [(''t'', Dict [(''first'', Handler Onlyfans_PLUG_2),
                                         (''sub'', Dict []),
                                         (''second'', Handler Onlyfans_PLUG_3)])]))
           Onlyfans_PLUG_2 fs_root \<lparr>msg_topic = ''t'', msg_payload = ''7''\<rparr>
           (TimerStatusBehaviour_init ONLYFANS 1 Onlyfans_members, world_init))
       = Some (Inl (FileNotFoundError
                      (ArgPath (truediv fs_root ''stat/onlyfans/TIMER1/unmarshalled''))))
   \<and> (\<exists>w'. run_children
              (timer_get_handler
                 (heap_of (Dict [(''t'', Dict [(''first'', Handler Onlyfans_PLUG_2),
                                               (''sub'', Dict []),
                                               (''second'', Handler Onlyfans_PLUG_3)])])))
              (heap_of (Dict [(''t'', Dict [(''first'', Handler Onlyfans_PLUG_2),
                                            (''sub'', Dict []),
                                            (''second'', Handler Onlyfans_PLUG_3)])]))
              fs_root \<lparr>msg_topic = ''t'', msg_payload = ''7''\<rparr>
              [truediv (truediv fs_root ''t'') ''first'',
               truediv (truediv fs_root ''t'') ''sub'',
               truediv (truediv fs_root ''t'') ''second'']
              (TimerStatusBehaviour_init ONLYFANS 1 Onlyfans_members, world_init) = Some w'
          \<and> on_message
              (timer_get_handler
                 (heap_of (Dict [(''t'', Dict [(''first'', Handler Onlyfans_PLUG_2),
                                               (''sub'', Dict []),
                                               (''second'', Handler Onlyfans_PLUG_3)])])))
              (heap_of (Dict [(''t'', Dict [(''first'', Handler Onlyfans_PLUG_2),
                                            (''sub'', Dict []),
                                            (''second'', Handler Onlyfans_PLUG_3)])]))
              fs_root \<lparr>msg_topic = ''t'', msg_payload = ''7''\<rparr>
              (TimerStatusBehaviour_init ONLYFANS 1 Onlyfans_members, world_init)
            = Some (Inr (), w')
          \<and> timer_state (fst w') = [(Onlyfans_PLUG_2, 7), (Onlyfans_PLUG_3, 7)])"
proof -
  let ?H = "heap_of (Dict [(''t'', Dict [(''first'', Handler Onlyfans_PLUG_2),
                                         (''sub'', Dict []),
                                         (''second'', Handler Onlyfans_PLUG_3)])])"
  let ?m = "\<lparr>msg_topic = ''t'', msg_payload = ''7''\<rparr>"
  let ?cs = "[truediv (truediv fs_root ''t'') ''first'',
              truediv (truediv fs_root ''t'') ''sub'',
              truediv (truediv fs_root ''t'') ''second'']"
  let ?w = "(TimerStatusBehaviour_init ONLYFANS 1 Onlyfans_members :: Onlyfans TimerStatusBehaviour,
             world_init)"
  let ?T = "''stat/onlyfans/TIMER1/unmarshalled''"
  let ?P = "\<lambda>v :: Onlyfans TimerStatusBehaviour \<times> world. timer_topic (fst v) = ?T"
  have a1: "iterdir ?H (truediv fs_root (msg_topic ?m)) = Some (Inr ?cs)"
    by code_simp
  have a2: "\<forall>c \<in> set ?cs. is_file ?H c \<noteq> None"
    by code_simp
  have j: "info ?H (truediv fs_root ?T)
             = Some (mk_info [''stat'', ''onlyfans'', ''TIMER1'', ''unmarshalled''] None)"
    by code_simp
  have p: "py_int isspace_bytes (msg_payload ?m) = (Inr 7 :: Onlyfans exn + int)"
    by code_simp
  have rs: "resolve ?H (truediv fs_root ?T) \<noteq> None"
    using j by (simp add: resolve_def)
  have a3: "\<forall>c \<in> set ?cs. \<forall>h v. ?P v \<and> handler ?H c = Some (Inr h) \<longrightarrow>
             (\<exists>r v'. timer_get_handler ?H h fs_root ?m v = Some (r, v') \<and> ?P v'
                \<and> (r = Inr () \<or> (\<exists>e. r = Inl e \<and> classification_error_on ?H e)))"
  proof (intro ballI allI impI)
    fix c h and v :: "Onlyfans TimerStatusBehaviour \<times> world"
    assume "?P v \<and> handler ?H c = Some (Inr h)"
    then have t: "timer_topic (fst v) = ?T" by simp
    with j have "info ?H (truediv fs_root (timer_topic (fst v)))
             = Some (mk_info [''stat'', ''onlyfans'', ''TIMER1'', ''unmarshalled''] None)"
      by simp
    from handle_timer_returns[OF p this, of h "snd v"] obtain r w' where
      r: "handle_timer ?H (fst v) fs_root h (msg_payload ?m) (snd v)
            = Some (r, (fst v)\<lparr>timer_state := setitem (timer_state (fst v)) h 7\<rparr>, w')"
         "r = Inr ()
           \<or> r = Inl (FileNotFoundError (ArgPath (truediv fs_root (timer_topic (fst v)))))
           \<or> r = Inl (NotADirectoryError (ArgPath (truediv fs_root (timer_topic (fst v)))))"
      by blast
    from r(2) t rs have "r = Inr () \<or> (\<exists>e. r = Inl e \<and> classification_error_on ?H e)"
      by (auto simp: classification_error_on_def)
    with r(1) t show "\<exists>r v'. timer_get_handler ?H h fs_root ?m v = Some (r, v') \<and> ?P v'
                \<and> (r = Inr () \<or> (\<exists>e. r = Inl e \<and> classification_error_on ?H e))"
      by (simp add: timer_get_handler_def)
  qed
  have a4: "?P ?w"
    by code_simp
  have first: "map_option fst (timer_get_handler ?H Onlyfans_PLUG_2 fs_root ?m ?w)
       = Some (Inl (FileNotFoundError (ArgPath (truediv fs_root ?T))))"
    by code_simp
  have ev: "map_option (\<lambda>(r, w'). timer_state (fst w'))
              (on_message (timer_get_handler ?H) ?H fs_root ?m ?w)
            = Some [(Onlyfans_PLUG_2, 7), (Onlyfans_PLUG_3, 7)]"
    by code_simp
  from on_message_isolates_classification_errors
         [where P = ?P and call = "timer_get_handler ?H" and w = ?w, OF a1 a2 a3 a4]
  obtain w' where
    w': "run_children (timer_get_handler ?H) ?H fs_root ?m ?cs ?w = Some w'"
        "on_message (timer_get_handler ?H) ?H fs_root ?m ?w = Some (Inr (), w')"
    by blast
  with ev have "timer_state (fst w') = [(Onlyfans_PLUG_2, 7), (Onlyfans_PLUG_3, 7)]"
    by simp
  with a1 first w' show ?thesis
    by blast
qed

theorem time_unmarshalled_rounds_witness:
  "reachable_cache (heap_of handler_tree_excerpt) (cache world_init)
   \<and> is_dir (heap_of handler_tree_excerpt)
        (truediv fs_root ''stat/tasmota-plug-2/TIMER1/unmarshalled'') = Some True
   \<and> py_split (CHR '':'') ''7:35'' = [''7'', ''35'']
   \<and> py_int isspace_str ''7'' = (Inr 7 :: Onlyfans exn + int)
   \<and> py_int isspace_str ''35'' = (Inr 35 :: Onlyfans exn + int)
   \<and> (\<exists>w'. time_unmarshalled
              (\<lambda>payload. Inr (PyDict [(''Timer1'', PyDict [(''Time'', PyStr ''7:35'')])]))
              (heap_of handler_tree_excerpt) 1 PLUG_2 fs_root
              \<lparr>msg_topic = ''stat/tasmota-plug-2/TIMER/retained'', msg_payload = ''7:35''\<rparr>
              world_init
            = Some (Inr (), w')
          \<and> outbox w' = [\<lparr>pub_topic = ''stat/tasmota-plug-2/TIMER1/unmarshalled'',
                            pub_payload = ''8'', pub_retain = True, pub_qos = 1\<rparr>])"
proof -
  let ?ld = "\<lambda>payload :: string.
               (Inr (PyDict [(''Timer1'', PyDict [(''Time'', PyStr ''7:35'')])])
                  :: Onlyfans exn + pyval)"
  let ?m = "\<lparr>msg_topic = ''stat/tasmota-plug-2/TIMER/retained'', msg_payload = ''7:35''\<rparr>"
  have r: "reachable_cache (heap_of handler_tree_excerpt) (cache world_init)"
    by (simp add: world_init_def reachable_cache.initial)
  have tp: "''stat/'' @ topic_value PLUG_2 @ ''/TIMER'' @ py_str 1 @ ''/unmarshalled''
              = ''stat/tasmota-plug-2/TIMER1/unmarshalled''"
    by code_simp
  have d: "is_dir (heap_of handler_tree_excerpt)
             (truediv fs_root (''stat/'' @ topic_value PLUG_2 @ ''/TIMER'' @ py_str 1
                                 @ ''/unmarshalled'')) = Some True"
    by code_simp
  have l: "?ld (msg_payload ?m) = Inr (PyDict [(''Timer1'', PyDict [(''Time'', PyStr ''7:35'')])])"
    by simp
  have k: "map_of [(''Timer1'', PyDict [(''Time'', PyStr ''7:35'')])] (''Timer'' @ py_str 1)
             = Some (PyDict [(''Time'', PyStr ''7:35'')])"
    by code_simp
  have t: "map_of [(''Time'', PyStr ''7:35'')] ''Time'' = Some (PyStr ''7:35'')"
    by simp
  have sp: "py_split (CHR '':'') ''7:35'' = [''7'', ''35'']"
    by code_simp
  have pi: "py_int isspace_str ''7'' = (Inr 7 :: Onlyfans exn + int)"
    "py_int isspace_str ''35'' = (Inr 35 :: Onlyfans exn + int)"
    by code_simp+
  have ps: "py_str (if (35::int) < 30 then 7 else (7 + 1) mod 24) = ''8''"
    by code_simp
  have o: "outbox world_init = []"
    by (simp add: world_init_def)
  from time_unmarshalled_rounds[where loads = ?ld and msg = ?m, OF r d l k t sp pi(1) pi(2)]
  have "\<exists>w'. time_unmarshalled ?ld (heap_of handler_tree_excerpt) 1 PLUG_2 fs_root ?m world_init
            = Some (Inr (), w')
          \<and> outbox w' = [\<lparr>pub_topic = ''stat/tasmota-plug-2/TIMER1/unmarshalled'',
                            pub_payload = ''8'', pub_retain = True, pub_qos = 1\<rparr>]"
    unfolding tp ps o by simp
  with r d[unfolded tp] sp pi show ?thesis
    by blast
qed

end
